theory Spec2Isabelle
  imports Complex_Main
begin

section \<open>Decimal arithmetic\<close>

text \<open>
  The \<^verbatim>\<open>Decimal\<close> of \<^verbatim>\<open>@prisma/client/runtime/library\<close> is decimal.js with its default
  settings. A Decimal holds a decimal fraction exactly and is compared exactly; here it is
  a rational number. The result of \<^verbatim>\<open>add\<close>, \<^verbatim>\<open>sub\<close> and \<^verbatim>\<open>mul\<close> is rounded to
  \<^verbatim>\<open>precision = 20\<close> significant digits, a tie going away from zero
  (\<^verbatim>\<open>ROUND_HALF_UP\<close>).
\<close>

text \<open>The number of decimal digits of a positive integer, 0 for any other.\<close>

function digits :: "int \<Rightarrow> nat" where
  "digits n = (if n \<le> 0 then 0 else Suc (digits (n div 10)))"
  by pat_completeness auto
termination
  by (relation "measure nat") auto

declare digits.simps [simp del]

text \<open>
  The exponent \<open>e\<close> of the leading digit of a number other than 0:
  \<open>10 ^ e \<le> \<bar>x\<bar> < 10 ^ (e + 1)\<close>. The digit counts of numerator and denominator
  fix it up to one, and the comparison decides.
\<close>

definition decimalExponent :: "rat \<Rightarrow> int" where
  "decimalExponent x =
     (let (p, q) = quotient_of \<bar>x\<bar>;
          d = int (digits p) - int (digits q)
      in if 10 powi d \<le> \<bar>x\<bar> then d else d - 1)"

definition roundHalfUp :: "rat \<Rightarrow> int" where
  "roundHalfUp y = (if 0 \<le> y then \<lfloor>y + 1 / 2\<rfloor> else - \<lfloor>- y + 1 / 2\<rfloor>)"

definition toSignificantDigits :: "nat \<Rightarrow> rat \<Rightarrow> rat" where
  "toSignificantDigits sd x =
     (if x = 0 then 0
      else (let u = 10 powi (decimalExponent x - int sd + 1)
            in of_int (roundHalfUp (x / u)) * u))"

definition precision :: nat where
  "precision = 20"

definition dec_add :: "rat \<Rightarrow> rat \<Rightarrow> rat" where
  "dec_add x y = toSignificantDigits precision (x + y)"

definition dec_sub :: "rat \<Rightarrow> rat \<Rightarrow> rat" where
  "dec_sub x y = toSignificantDigits precision (x - y)"

definition dec_mul :: "rat \<Rightarrow> rat \<Rightarrow> rat" where
  "dec_mul x y = toSignificantDigits precision (x * y)"

text \<open>A number the rounding leaves as it is: it has at most 20 significant digits.\<close>

definition unrounded :: "rat \<Rightarrow> bool" where
  "unrounded x = (toSignificantDigits precision x = x)"

section \<open>Errors\<close>

text \<open>
  A JavaScript template literal is kept as the list of its parts, so that a number or a
  Decimal interpolated into a message stays visible in the model; string concatenation
  is list append.
\<close>

datatype fragment = Text string | Num int | Dec rat

type_synonym msg = "fragment list"

text \<open>
  The error classes of \<^verbatim>\<open>src/types/billing.ts\<close>, \<^verbatim>\<open>src/utils/retry.ts\<close> and
  \<^verbatim>\<open>src/utils/circuit-breaker.ts\<close>, the plain \<^verbatim>\<open>Error\<close>, the \<^verbatim>\<open>TypeError\<close> the
  runtime raises on a property read of \<^verbatim>\<open>undefined\<close>, and the error Prisma raises when an
  \<^verbatim>\<open>update\<close> finds no row. \<^verbatim>\<open>InsufficientCreditsError\<close> carries required, available and
  userId; \<^verbatim>\<open>CircuitBreakerOpenError\<close> the service name; \<^verbatim>\<open>PricingTierNotFoundError\<close> the
  tier name.
\<close>

datatype error =
    Error msg
  | TypeError msg
  | PrismaRecordNotFound
  | RetryableError msg
  | NonRetryableError msg
  | CircuitBreakerOpenError string
  | InsufficientCreditsError rat rat string
  | PricingTierNotFoundError string

fun message :: "error \<Rightarrow> msg" where
  "message (Error m) = m"
| "message (TypeError m) = m"
| "message PrismaRecordNotFound = [Text ''Record to update not found.'']"
| "message (RetryableError m) = m"
| "message (NonRetryableError m) = m"
| "message (CircuitBreakerOpenError serviceName) =
     [Text ''Circuit breaker is OPEN for service: '', Text serviceName]"
| "message (InsufficientCreditsError required available uid) =
     [Text ''Insufficient credits: required '', Dec required, Text '', available '', Dec available]"
| "message (PricingTierNotFoundError tierName) =
     [Text ''Pricing tier not found: '', Text tierName]"

section \<open>The credit ledger (\<^verbatim>\<open>src/services/credit-management.ts\<close>)\<close>

subsection \<open>Data\<close>

text \<open>
  A Prisma \<^verbatim>\<open>Decimal\<close> is a rational number, and its sums and differences are the
  rounded ones of the section above. \<^verbatim>\<open>CreditBalance\<close> is the interface of
  \<^verbatim>\<open>src/types/billing.ts\<close>; a \<^verbatim>\<open>userCredit\<close> row has these nine columns and its key,
  owner and update stamp.
\<close>

record CreditBalance =
  balance :: rat
  totalAllocated :: rat
  totalUsed :: rat
  lowBalanceThreshold :: "rat option"
  autoTopupEnabled :: bool
  autoTopupAmount :: "rat option"
  isActive :: bool
  suspendedAt :: "int option"
  suspensionReason :: "string option"

record UserCredit = CreditBalance +
  creditId :: nat
  userId :: string
  updatedAt :: int

datatype CreditTransactionType = TOPUP | USAGE | REFUND | ADJUSTMENT | BONUS | PENALTY

text \<open>\<^verbatim>\<open>Omit<CreditTransactionData, 'amount'>\<close>: what the caller says about a mutation.\<close>

record TransactionData =
  txType :: CreditTransactionType
  txDescription :: "string option"
  txReference :: "string option"
  txMetadata :: "(string \<times> string) list option"
  txProcessedBy :: "string option"

record CreditTransaction =
  userCreditId :: nat
  ctype :: CreditTransactionType
  amount :: rat
  balanceBefore :: rat
  balanceAfter :: rat
  description :: "string option"
  reference :: "string option"
  metadata :: "(string \<times> string) list option"
  processedBy :: "string option"

text \<open>What \<^verbatim>\<open>handleLowBalance\<close> hands to the logger, its only collaborator so far.\<close>

datatype event =
    LowBalanceDetected string rat "rat option"
  | AutoTopupTriggered string rat
  | HandleLowBalanceFailed error

text \<open>The writes the service sends to the database.\<close>

datatype db_write = UserCreditCreate | UserCreditUpdate | CreditTransactionCreate

text \<open>
  The storage the service talks to: the \<^verbatim>\<open>userCredit\<close> table (\<^verbatim>\<open>userId\<close> is its
  unique key), the append-only \<^verbatim>\<open>creditTransaction\<close> table, the key generator, the
  Redis entries \<^verbatim>\<open>credits:balance:<userId>\<close>, the events delivered to the logger, and
  the writes the database refuses: \<open>refuses s w = Some e\<close> when a write \<open>w\<close> throws \<open>e\<close>
  (a lost connection, a constraint, a timeout).
\<close>

record storage =
  userCredit :: "string \<rightharpoonup> UserCredit"
  creditTransaction :: "CreditTransaction list"
  nextId :: nat
  balanceCache :: "string \<rightharpoonup> CreditBalance"
  delivered :: "event list"
  refuses :: "db_write \<Rightarrow> error option"

text \<open>
  The surroundings of a call: the clock reading of \<^verbatim>\<open>new Date()\<close>, the column defaults
  of the \<^verbatim>\<open>userCredit\<close> table (its schema is not among the sources, so they are
  parameters), and the logger seen from \<^verbatim>\<open>handleLowBalance\<close>: \<open>sink ev = Some e\<close> when
  the logger call that delivers \<open>ev\<close> throws \<open>e\<close>. \<open>HandleLowBalanceFailed\<close> is the
  \<^verbatim>\<open>logger.error\<close> of its \<^verbatim>\<open>catch\<close>.
\<close>

record ctx =
  clock :: int
  defaultLowBalanceThreshold :: "rat option"
  defaultAutoTopupEnabled :: bool
  defaultAutoTopupAmount :: "rat option"
  sink :: "event \<Rightarrow> error option"

type_synonym 'a promise = "(error + 'a) \<times> storage"

subsection \<open>Helpers\<close>

definition toCreditBalance :: "UserCredit \<Rightarrow> CreditBalance" where
  "toCreditBalance r =
     \<lparr> balance = balance r,
       totalAllocated = totalAllocated r,
       totalUsed = totalUsed r,
       lowBalanceThreshold = lowBalanceThreshold r,
       autoTopupEnabled = autoTopupEnabled r,
       autoTopupAmount = autoTopupAmount r,
       isActive = isActive r,
       suspendedAt = suspendedAt r,
       suspensionReason = suspensionReason r \<rparr>"

definition createCreditAccount :: "ctx \<Rightarrow> string \<Rightarrow> storage \<Rightarrow> UserCredit \<times> storage" where
  "createCreditAccount c uid s =
     (let row = \<lparr> balance = 0,
                  totalAllocated = 0,
                  totalUsed = 0,
                  lowBalanceThreshold = defaultLowBalanceThreshold c,
                  autoTopupEnabled = defaultAutoTopupEnabled c,
                  autoTopupAmount = defaultAutoTopupAmount c,
                  isActive = True,
                  suspendedAt = None,
                  suspensionReason = None,
                  creditId = nextId s,
                  userId = uid,
                  updatedAt = clock c \<rparr>
      in (row, s\<lparr> userCredit := (userCredit s)(uid \<mapsto> row), nextId := Suc (nextId s) \<rparr>))"

definition clearBalanceCache :: "string \<Rightarrow> storage \<Rightarrow> storage" where
  "clearBalanceCache uid s = s\<lparr> balanceCache := (balanceCache s)(uid := None) \<rparr>"

definition mkTransaction ::
  "UserCredit \<Rightarrow> TransactionData \<Rightarrow> rat \<Rightarrow> rat \<Rightarrow> rat \<Rightarrow> CreditTransaction" where
  "mkTransaction updatedCredit td amt before after =
     \<lparr> userCreditId = creditId updatedCredit,
       ctype = txType td,
       amount = amt,
       balanceBefore = before,
       balanceAfter = after,
       description = txDescription td,
       reference = txReference td,
       metadata = txMetadata td,
       processedBy = txProcessedBy td \<rparr>"

text \<open>
  The three writes, each refused or done. \<^verbatim>\<open>createCreditAccount\<close> above is the row
  \<^verbatim>\<open>userCredit.create\<close> makes and the table with it; \<open>userCreditCreate\<close> is the call.
\<close>

definition userCreditCreate :: "ctx \<Rightarrow> string \<Rightarrow> storage \<Rightarrow> error + UserCredit \<times> storage" where
  "userCreditCreate c uid s =
     (case refuses s UserCreditCreate of
        Some e \<Rightarrow> Inl e
      | None \<Rightarrow> Inr (createCreditAccount c uid s))"

definition userCreditUpdate :: "string \<Rightarrow> UserCredit \<Rightarrow> storage \<Rightarrow> error + storage" where
  "userCreditUpdate uid row s =
     (case refuses s UserCreditUpdate of
        Some e \<Rightarrow> Inl e
      | None \<Rightarrow> Inr (s\<lparr> userCredit := (userCredit s)(uid \<mapsto> row) \<rparr>))"

definition creditTransactionCreate :: "CreditTransaction \<Rightarrow> storage \<Rightarrow> error + storage" where
  "creditTransactionCreate row s =
     (case refuses s CreditTransactionCreate of
        Some e \<Rightarrow> Inl e
      | None \<Rightarrow> Inr (s\<lparr> creditTransaction := creditTransaction s @ [row] \<rparr>))"

text \<open>
  \<^verbatim>\<open>prisma.$transaction\<close>: when the callback throws, the tables are as before the call;
  Redis and the logger are outside the transaction and keep what was done to them.
\<close>

definition transaction :: "(storage \<Rightarrow> 'a promise) \<Rightarrow> storage \<Rightarrow> 'a promise" where
  "transaction body s =
     (case body s of
        (Inl e, s') \<Rightarrow>
          (Inl e, s'\<lparr> userCredit := userCredit s,
                       creditTransaction := creditTransaction s,
                       nextId := nextId s \<rparr>)
      | (Inr v, s') \<Rightarrow> (Inr v, s'))"

text \<open>
  \<^verbatim>\<open>handleLowBalance\<close>: the whole body is inside \<^verbatim>\<open>try\<close>; the \<^verbatim>\<open>catch\<close> reports
  through \<^verbatim>\<open>logger.error\<close>, a call nothing protects: when it throws too, the error
  leaves the function. A \<^verbatim>\<open>Decimal\<close> object is truthy, so
  \<^verbatim>\<open>autoTopupEnabled && autoTopupAmount\<close> asks for the flag and a non-null amount.
\<close>

definition reportFailure :: "ctx \<Rightarrow> error \<Rightarrow> storage \<Rightarrow> unit promise" where
  "reportFailure c caught s =
     (case sink c (HandleLowBalanceFailed caught) of
        Some e \<Rightarrow> (Inl e, s)
      | None \<Rightarrow> (Inr (), s\<lparr> delivered := delivered s @ [HandleLowBalanceFailed caught] \<rparr>))"

definition handleLowBalance :: "ctx \<Rightarrow> string \<Rightarrow> UserCredit \<Rightarrow> storage \<Rightarrow> unit promise" where
  "handleLowBalance c uid uc s =
     (let warn = LowBalanceDetected uid (balance uc) (lowBalanceThreshold uc) in
      case sink c warn of
        Some e \<Rightarrow> reportFailure c e s
      | None \<Rightarrow>
          (let s1 = s\<lparr> delivered := delivered s @ [warn] \<rparr> in
           case autoTopupAmount uc of
             Some topup \<Rightarrow>
               (if autoTopupEnabled uc then
                  (case sink c (AutoTopupTriggered uid topup) of
                     Some e \<Rightarrow> reportFailure c e s1
                   | None \<Rightarrow>
                       (Inr (), s1\<lparr> delivered := delivered s1 @ [AutoTopupTriggered uid topup] \<rparr>))
                else (Inr (), s1))
           | None \<Rightarrow> (Inr (), s1)))"

subsection \<open>Operations\<close>

definition getBalance :: "ctx \<Rightarrow> string \<Rightarrow> storage \<Rightarrow> CreditBalance promise" where
  "getBalance c uid s =
     (case balanceCache s uid of
        Some cached \<Rightarrow> (Inr cached, s)
      | None \<Rightarrow>
          (case (case userCredit s uid of
                   Some found \<Rightarrow> Inr (found, s)
                 | None \<Rightarrow> userCreditCreate c uid s) of
             Inl e \<Rightarrow> (Inl e, s)
           | Inr (uc, s1) \<Rightarrow>
               (let b = toCreditBalance uc
                in (Inr b, s1\<lparr> balanceCache := (balanceCache s1)(uid \<mapsto> b) \<rparr>))))"

definition addCredits ::
  "ctx \<Rightarrow> string \<Rightarrow> rat \<Rightarrow> TransactionData \<Rightarrow> storage \<Rightarrow> CreditBalance promise" where
  "addCredits c uid amt td =
     transaction (\<lambda>s.
       case (case userCredit s uid of
               Some found \<Rightarrow> Inr (found, s)
             | None \<Rightarrow> userCreditCreate c uid s) of
         Inl e \<Rightarrow> (Inl e, s)
       | Inr (uc, s1) \<Rightarrow>
           (let before = balance uc;
                after = dec_add before amt;
                updatedCredit = uc\<lparr> balance := after,
                                     totalAllocated := dec_add (totalAllocated uc) amt,
                                     updatedAt := clock c \<rparr>
            in case userCreditUpdate uid updatedCredit s1 of
                 Inl e \<Rightarrow> (Inl e, s1)
               | Inr s2 \<Rightarrow>
                   (case creditTransactionCreate
                           (mkTransaction updatedCredit td amt before after) s2 of
                      Inl e \<Rightarrow> (Inl e, s2)
                    | Inr s3 \<Rightarrow>
                        (Inr (toCreditBalance updatedCredit), clearBalanceCache uid s3))))"

definition deductCredits ::
  "ctx \<Rightarrow> string \<Rightarrow> rat \<Rightarrow> TransactionData \<Rightarrow> storage \<Rightarrow> CreditBalance promise" where
  "deductCredits c uid amt td =
     transaction (\<lambda>s.
       case userCredit s uid of
         None \<Rightarrow> (Inl (Error [Text ''Credit account not found for user: '', Text uid]), s)
       | Some uc \<Rightarrow>
           if \<not> isActive uc then
             (Inl (Error [Text ''Credit account suspended for user: '', Text uid]), s)
           else
             (let before = balance uc in
              if before < amt then (Inl (InsufficientCreditsError amt before uid), s)
              else
                (let after = dec_sub before amt;
                     updatedCredit = uc\<lparr> balance := after,
                                          totalUsed := dec_add (totalUsed uc) amt,
                                          updatedAt := clock c \<rparr>
                 in case userCreditUpdate uid updatedCredit s of
                      Inl e \<Rightarrow> (Inl e, s)
                    | Inr s2 \<Rightarrow>
                        (case creditTransactionCreate
                                (mkTransaction updatedCredit td amt before after) s2 of
                           Inl e \<Rightarrow> (Inl e, s2)
                         | Inr s3 \<Rightarrow>
                             (let s4 = clearBalanceCache uid s3;
                                  (alert, s5) =
                                    (case lowBalanceThreshold updatedCredit of
                                       Some threshold \<Rightarrow>
                                         (if after \<le> threshold
                                          then handleLowBalance c uid updatedCredit s4
                                          else (Inr (), s4))
                                     | None \<Rightarrow> (Inr (), s4))
                              in case alert of
                                   Inl e \<Rightarrow> (Inl e, s5)
                                 | Inr _ \<Rightarrow> (Inr (toCreditBalance updatedCredit), s5))))))"

text \<open>The settings a caller may change; \<open>None\<close> is a key left out of the object.\<close>

record CreditSettings =
  setLowBalanceThreshold :: "rat option"
  setAutoTopupEnabled :: "bool option"
  setAutoTopupAmount :: "rat option"

definition updateCreditSettings ::
  "ctx \<Rightarrow> string \<Rightarrow> CreditSettings \<Rightarrow> storage \<Rightarrow> CreditBalance promise" where
  "updateCreditSettings c uid st s =
     (case userCredit s uid of
        None \<Rightarrow> (Inl PrismaRecordNotFound, s)
      | Some uc \<Rightarrow>
          (let updatedCredit =
                 uc\<lparr> lowBalanceThreshold :=
                        (case setLowBalanceThreshold st of
                           Some t \<Rightarrow> Some t | None \<Rightarrow> lowBalanceThreshold uc),
                      autoTopupEnabled :=
                        (case setAutoTopupEnabled st of
                           Some b \<Rightarrow> b | None \<Rightarrow> autoTopupEnabled uc),
                      autoTopupAmount :=
                        (case setAutoTopupAmount st of
                           Some a \<Rightarrow> Some a | None \<Rightarrow> autoTopupAmount uc),
                      updatedAt := clock c \<rparr>
           in case userCreditUpdate uid updatedCredit s of
                Inl e \<Rightarrow> (Inl e, s)
              | Inr s1 \<Rightarrow> (Inr (toCreditBalance updatedCredit), clearBalanceCache uid s1)))"

definition suspendAccount ::
  "ctx \<Rightarrow> string \<Rightarrow> string \<Rightarrow> string option \<Rightarrow> storage \<Rightarrow> unit promise" where
  "suspendAccount c uid reason suspendedBy s =
     (case userCredit s uid of
        None \<Rightarrow> (Inl PrismaRecordNotFound, s)
      | Some uc0 \<Rightarrow>
          (let uc = uc0\<lparr> isActive := False,
                         suspendedAt := Some (clock c),
                         suspensionReason := Some reason,
                         updatedAt := clock c \<rparr>
           in case userCreditUpdate uid uc s of
                Inl e \<Rightarrow> (Inl e, s)
              | Inr s1 \<Rightarrow>
                  (case creditTransactionCreate
                          \<lparr> userCreditId = creditId uc,
                            ctype = PENALTY,
                            amount = 0,
                            balanceBefore = balance uc,
                            balanceAfter = balance uc,
                            description = Some (''Account suspended: '' @ reason),
                            reference = None,
                            metadata = None,
                            processedBy = suspendedBy \<rparr> s1 of
                     Inl e \<Rightarrow> (Inl e, s1)
                   | Inr s2 \<Rightarrow> (Inr (), clearBalanceCache uid s2))))"

definition reactivateAccount :: "ctx \<Rightarrow> string \<Rightarrow> string option \<Rightarrow> storage \<Rightarrow> unit promise" where
  "reactivateAccount c uid reactivatedBy s =
     (case userCredit s uid of
        None \<Rightarrow> (Inl PrismaRecordNotFound, s)
      | Some uc0 \<Rightarrow>
          (let uc = uc0\<lparr> isActive := True,
                         suspendedAt := None,
                         suspensionReason := None,
                         updatedAt := clock c \<rparr>
           in case userCreditUpdate uid uc s of
                Inl e \<Rightarrow> (Inl e, s)
              | Inr s1 \<Rightarrow>
                  (case creditTransactionCreate
                          \<lparr> userCreditId = creditId uc,
                            ctype = ADJUSTMENT,
                            amount = 0,
                            balanceBefore = balance uc,
                            balanceAfter = balance uc,
                            description = Some ''Account reactivated'',
                            reference = None,
                            metadata = None,
                            processedBy = reactivatedBy \<rparr> s1 of
                     Inl e \<Rightarrow> (Inl e, s1)
                   | Inr s2 \<Rightarrow> (Inr (), clearBalanceCache uid s2))))"

subsection \<open>The ledger as a transition system\<close>

text \<open>
  Every public operation of the service, and the expiry of a Redis entry (\<^verbatim>\<open>setex\<close> with a
  time to live of 300 seconds), as one step on the storage.
\<close>

datatype ledger_op =
    GetBalance string
  | AddCredits string rat TransactionData
  | DeductCredits string rat TransactionData
  | UpdateCreditSettings string CreditSettings
  | SuspendAccount string string "string option"
  | ReactivateAccount string "string option"
  | CacheExpiry string

fun run :: "ctx \<Rightarrow> ledger_op \<Rightarrow> storage \<Rightarrow> storage" where
  "run c (GetBalance uid) s = snd (getBalance c uid s)"
| "run c (AddCredits uid amt td) s = snd (addCredits c uid amt td s)"
| "run c (DeductCredits uid amt td) s = snd (deductCredits c uid amt td s)"
| "run c (UpdateCreditSettings uid st) s = snd (updateCreditSettings c uid st s)"
| "run c (SuspendAccount uid reason who) s = snd (suspendAccount c uid reason who s)"
| "run c (ReactivateAccount uid who) s = snd (reactivateAccount c uid who s)"
| "run c (CacheExpiry uid) s = clearBalanceCache uid s"

definition emptyStorage :: storage where
  "emptyStorage =
     \<lparr> userCredit = Map.empty,
       creditTransaction = [],
       nextId = 0,
       balanceCache = Map.empty,
       delivered = [],
       refuses = (\<lambda>w. None) \<rparr>"

text \<open>
  No other file of the repository writes the \<^verbatim>\<open>userCredit\<close> table, so the storages the
  program can be in, on a database that accepts its writes, are those the operations
  build from the empty one.
\<close>

inductive reachable :: "storage \<Rightarrow> bool" where
  start: "reachable emptyStorage"
| step: "reachable s \<Longrightarrow> reachable (run c op s)"

text \<open>The reconciliation invariant of an account row, and of a storage.\<close>

definition reconciled :: "UserCredit \<Rightarrow> bool" where
  "reconciled uc = (balance uc = totalAllocated uc - totalUsed uc)"

definition ledger_inv :: "storage \<Rightarrow> bool" where
  "ledger_inv s = (\<forall>uc \<in> ran (userCredit s). reconciled uc)"

text \<open>A Redis entry exists only for a user whose account row exists.\<close>

definition cache_sound :: "storage \<Rightarrow> bool" where
  "cache_sound s = (dom (balanceCache s) \<subseteq> dom (userCredit s))"

text \<open>The balance an account shows, 0 for the account a first access would create.\<close>

definition balanceOf :: "storage \<Rightarrow> string \<Rightarrow> rat" where
  "balanceOf s uid = (case userCredit s uid of Some uc \<Rightarrow> balance uc | None \<Rightarrow> 0)"

definition allocatedOf :: "storage \<Rightarrow> string \<Rightarrow> rat" where
  "allocatedOf s uid = (case userCredit s uid of Some uc \<Rightarrow> totalAllocated uc | None \<Rightarrow> 0)"

definition usedOf :: "storage \<Rightarrow> string \<Rightarrow> rat" where
  "usedOf s uid = (case userCredit s uid of Some uc \<Rightarrow> totalUsed uc | None \<Rightarrow> 0)"

text \<open>
  The sums and differences an operation computes on an account are not rounded: the
  exact results have at most 20 significant digits.
\<close>

fun exactFor :: "storage \<Rightarrow> ledger_op \<Rightarrow> bool" where
  "exactFor s (AddCredits uid amt td) =
     (unrounded (balanceOf s uid + amt) \<and> unrounded (allocatedOf s uid + amt))"
| "exactFor s (DeductCredits uid amt td) =
     (unrounded (balanceOf s uid - amt) \<and> unrounded (usedOf s uid + amt))"
| "exactFor s other = True"

text \<open>The tables of the database are the same in two storages.\<close>

definition sameTables :: "storage \<Rightarrow> storage \<Rightarrow> bool" where
  "sameTables s s' =
     (userCredit s' = userCredit s \<and> creditTransaction s' = creditTransaction s
      \<and> nextId s' = nextId s)"

text \<open>
  Between two storages, exactly one transaction row was appended, and it carries the
  balance the account showed before and the balance it shows after.
\<close>

definition recorded :: "storage \<Rightarrow> storage \<Rightarrow> string \<Rightarrow> rat \<Rightarrow> bool" where
  "recorded s s' uid amt =
     (\<exists>row. creditTransaction s' = creditTransaction s @ [row]
          \<and> amount row = amt
          \<and> balanceBefore row = balanceOf s uid
          \<and> balanceAfter row = balanceOf s' uid)"

section \<open>The circuit breaker (\<^verbatim>\<open>src/utils/circuit-breaker.ts\<close>)\<close>

datatype CircuitBreakerState = CLOSED | OPEN | HALF_OPEN

text \<open>Times are milliseconds, as \<^verbatim>\<open>Date.now()\<close> reads them.\<close>

record CircuitBreakerOptions =
  failureThreshold :: int
  recoveryTimeout :: int
  monitoringPeriod :: int
  expectedErrors :: "(error \<Rightarrow> bool) option"

record CircuitBreaker =
  serviceName :: string
  options :: CircuitBreakerOptions
  state :: CircuitBreakerState
  failureCount :: int
  lastFailureTime :: "int option"
  nextAttemptTime :: int

text \<open>The constructor: the field initialisers of the class.\<close>

definition newCircuitBreaker :: "string \<Rightarrow> CircuitBreakerOptions \<Rightarrow> CircuitBreaker" where
  "newCircuitBreaker name opts =
     \<lparr> serviceName = name,
       options = opts,
       state = CLOSED,
       failureCount = 0,
       lastFailureTime = None,
       nextAttemptTime = 0 \<rparr>"

definition onSuccess :: "CircuitBreaker \<Rightarrow> CircuitBreaker" where
  "onSuccess b =
     (let b1 = b\<lparr> failureCount := 0 \<rparr>
      in if state b1 = HALF_OPEN then b1\<lparr> state := CLOSED \<rparr> else b1)"

text \<open>
  \<^verbatim>\<open>onFailure\<close> reads the clock for \<^verbatim>\<open>lastFailureTime\<close> and again, one statement
  later, for \<^verbatim>\<open>nextAttemptTime\<close>; the model gives both the reading \<open>now\<close>.
\<close>

definition onFailure :: "CircuitBreaker \<Rightarrow> error \<Rightarrow> int \<Rightarrow> CircuitBreaker" where
  "onFailure b err now =
     (if (case expectedErrors (options b) of
            Some classify \<Rightarrow> \<not> classify err
          | None \<Rightarrow> False)
      then b
      else
        (let b1 = b\<lparr> failureCount := failureCount b + 1, lastFailureTime := Some now \<rparr>
         in if state b1 = HALF_OPEN then
              b1\<lparr> state := OPEN, nextAttemptTime := now + recoveryTimeout (options b1) \<rparr>
            else if failureThreshold (options b1) \<le> failureCount b1 then
              b1\<lparr> state := OPEN, nextAttemptTime := now + recoveryTimeout (options b1) \<rparr>
            else b1))"

text \<open>
  The wrapped operation acts on the world outside the breaker: started at a clock
  reading in a world, it settles with a value or an error, at a later reading, in a
  changed world. A call the breaker does not make leaves the world as it is.
\<close>

type_synonym ('w, 'a) operation = "'w \<Rightarrow> int \<Rightarrow> (error + 'a) \<times> int \<times> 'w"

record ('w, 'a) execution =
  outcome :: "error + 'a"
  breaker :: CircuitBreaker
  world :: 'w

text \<open>
  The head of \<^verbatim>\<open>execute\<close>, before the \<^verbatim>\<open>try\<close>: an OPEN breaker throws until
  \<^verbatim>\<open>nextAttemptTime\<close> and turns HALF_OPEN from then on.
\<close>

definition admit :: "CircuitBreaker \<Rightarrow> int \<Rightarrow> error + CircuitBreaker" where
  "admit b now =
     (if state b = OPEN then
        (if now < nextAttemptTime b then Inl (CircuitBreakerOpenError (serviceName b))
         else Inr (b\<lparr> state := HALF_OPEN \<rparr>))
      else Inr b)"

definition execute ::
  "CircuitBreaker \<Rightarrow> int \<Rightarrow> ('w, 'a) operation \<Rightarrow> 'w \<Rightarrow> ('w, 'a) execution" where
  "execute b now operation w =
     (case admit b now of
        Inl err \<Rightarrow> \<lparr> outcome = Inl err, breaker = b, world = w \<rparr>
      | Inr b1 \<Rightarrow>
          (case operation w now of
             (Inr result, settled, w') \<Rightarrow>
               \<lparr> outcome = Inr result, breaker = onSuccess b1, world = w' \<rparr>
           | (Inl err, settled, w') \<Rightarrow>
               \<lparr> outcome = Inl err, breaker = onFailure b1 err settled, world = w' \<rparr>))"

definition reset :: "CircuitBreaker \<Rightarrow> CircuitBreaker" where
  "reset b = b\<lparr> state := CLOSED, failureCount := 0, lastFailureTime := None,
               nextAttemptTime := 0 \<rparr>"

text \<open>Whether a failure counts towards opening the breaker.\<close>

definition counted :: "CircuitBreaker \<Rightarrow> error \<Rightarrow> bool" where
  "counted b err =
     (case expectedErrors (options b) of Some classify \<Rightarrow> classify err | None \<Rightarrow> True)"

subsection \<open>A message read as text\<close>

text \<open>\<^verbatim>\<open>String.prototype.includes\<close>, named apart from the Isar keyword\<close>

fun contains :: "string \<Rightarrow> string \<Rightarrow> bool" where
  "contains [] needle = (needle = [])"
| "contains (c # cs) needle = (take (length needle) (c # cs) = needle \<or> contains cs needle)"

text \<open>An integer as JavaScript prints it.\<close>

definition digitChar :: "nat \<Rightarrow> char" where
  "digitChar d = char_of (48 + d)"

fun showNat :: "nat \<Rightarrow> string" where
  "showNat n = (if n < 10 then [digitChar n] else showNat (n div 10) @ [digitChar (n mod 10)])"

definition showInt :: "int \<Rightarrow> string" where
  "showInt i = (if i < 0 then CHR ''-'' # showNat (nat (- i)) else showNat (nat i))"

text \<open>
  The text of a message. An interpolated Decimal prints as digits, a sign, a point and
  an exponent mark between digits and sign; one digit stands for it here, which leaves
  every search for a word of letters as it is.
\<close>

fun shownFragment :: "fragment \<Rightarrow> string" where
  "shownFragment (Text t) = t"
| "shownFragment (Num n) = showInt n"
| "shownFragment (Dec d) = ''0''"

definition shown :: "msg \<Rightarrow> string" where
  "shown m = concat (map shownFragment m)"

section \<open>Retry with backoff (\<^verbatim>\<open>src/utils/retry.ts\<close>)\<close>








text \<open>
  A run of \<^verbatim>\<open>withRetry\<close>: what it resolves or rejects with, how many times it called the
  operation, and the delays it slept, in order.
\<close>

record 'a retry_run =
  result :: "error + 'a"
  attempts :: nat
  delays :: "rat list"





section \<open>Pricing (\<^verbatim>\<open>src/config/pricing.ts\<close> and the usage processor)\<close>

text \<open>
  Prices are \<^verbatim>\<open>Decimal\<close>s, modelled as rationals. Sizes and durations are JavaScript
  numbers holding integers; their quotients by 1024 and 1000 are taken as the exact
  rationals, which is the decimal \<^verbatim>\<open>new Decimal(number)\<close> reads from the number's
  printed form in the cases at hand (4096 / 1024 = 4, 2000 / 1000 = 2). An entry of
  \<^verbatim>\<open>endpointPricing\<close> is a number such as 0.02 and enters as the decimal it prints as.
\<close>

record Pricing =
  basePrice :: rat
  sizeMultiplier :: rat
  durationMultiplier :: rat
  endpointPricing :: "(string \<rightharpoonup> rat) option"

record PricingRule = Pricing +
  maxRequestSize :: "int option"
  maxDuration :: "int option"

text \<open>The part of the parameter object that describes the call.\<close>

record UsageParams =
  endpoint :: string
  requestSize :: int
  responseSize :: int
  duration :: int

text \<open>
  The object both calculations return; its first field is \<^verbatim>\<open>basePrice\<close> in the source,
  primed here to keep it apart from the field of the rule.
\<close>

record CostBreakdown =
  basePrice' :: rat
  sizePrice :: rat
  durationPrice :: rat
  endpointPrice :: rat
  totalPrice :: rat

record PricingCalculation = CostBreakdown +
  pricingTier :: string

text \<open>
  A property read on a plain object finds the object's own keys first and then the
  names every object inherits. What is inherited is a function, or the prototype itself
  under \<^verbatim>\<open>__proto__\<close>; the table gives each as JavaScript prints it.
\<close>

definition objectPrototype :: "string \<rightharpoonup> string" where
  "objectPrototype =
     map_of
       [(''constructor'', ''function Object() { [native code] }''),
        (''__defineGetter__'', ''function __defineGetter__() { [native code] }''),
        (''__defineSetter__'', ''function __defineSetter__() { [native code] }''),
        (''hasOwnProperty'', ''function hasOwnProperty() { [native code] }''),
        (''__lookupGetter__'', ''function __lookupGetter__() { [native code] }''),
        (''__lookupSetter__'', ''function __lookupSetter__() { [native code] }''),
        (''isPrototypeOf'', ''function isPrototypeOf() { [native code] }''),
        (''propertyIsEnumerable'', ''function propertyIsEnumerable() { [native code] }''),
        (''toString'', ''function toString() { [native code] }''),
        (''valueOf'', ''function valueOf() { [native code] }''),
        (''__proto__'', ''[object Object]''),
        (''toLocaleString'', ''function toLocaleString() { [native code] }'')]"

text \<open>
  \<^verbatim>\<open>endpointPricing && endpointPricing[endpoint]\<close>, and \<^verbatim>\<open>new Decimal\<close> of what was
  found: an own number other than 0 is the price; an inherited value is truthy and no
  number, and \<^verbatim>\<open>new Decimal\<close> throws on it; everything else is the price 0.
\<close>

definition endpointCostOf :: "(string \<rightharpoonup> rat) option \<Rightarrow> string \<Rightarrow> error + rat" where
  "endpointCostOf table ep =
     (case table of
        None \<Rightarrow> Inr 0
      | Some prices \<Rightarrow>
          (case prices ep of
             Some price \<Rightarrow> Inr (if price \<noteq> 0 then price else 0)
           | None \<Rightarrow>
               (case objectPrototype ep of
                  Some printed \<Rightarrow>
                    Inl (Error [Text ''[DecimalError] Invalid argument: '', Text printed])
                | None \<Rightarrow> Inr 0)))"

text \<open>\<^verbatim>\<open>PricingCalculator.calculateCost\<close>\<close>

definition calculateCost :: "'a Pricing_scheme \<Rightarrow> UsageParams \<Rightarrow> error + CostBreakdown" where
  "calculateCost pricing params =
     (let baseCost = basePrice pricing;
          totalSize = requestSize params + responseSize params;
          sizeInKB = rat_of_int totalSize / 1024;
          sizeCost = dec_mul sizeInKB (sizeMultiplier pricing);
          durationInSeconds = rat_of_int (duration params) / 1000;
          durationCost = dec_mul durationInSeconds (durationMultiplier pricing)
      in case endpointCostOf (endpointPricing pricing) (endpoint params) of
           Inl e \<Rightarrow> Inl e
         | Inr endpointCost \<Rightarrow>
             (let totalCost =
                    dec_add (dec_add (dec_add baseCost sizeCost) durationCost) endpointCost
              in Inr \<lparr> basePrice' = baseCost,
                       sizePrice = sizeCost,
                       durationPrice = durationCost,
                       endpointPrice = endpointCost,
                       totalPrice = totalCost \<rparr>))"

text \<open>\<^verbatim>\<open>UsageProcessorService.performPricingCalculation\<close>\<close>

definition performPricingCalculation ::
  "UsageParams \<Rightarrow> 'a Pricing_scheme \<Rightarrow> error + PricingCalculation" where
  "performPricingCalculation params pricing =
     (let basePrice0 = basePrice pricing;
          totalSize = requestSize params + responseSize params;
          sizeInKB = rat_of_int totalSize / 1024;
          sizePrice0 = dec_mul sizeInKB (sizeMultiplier pricing);
          durationInSeconds = rat_of_int (duration params) / 1000;
          durationPrice0 = dec_mul durationInSeconds (durationMultiplier pricing)
      in case endpointCostOf (endpointPricing pricing) (endpoint params) of
           Inl e \<Rightarrow> Inl e
         | Inr endpointPrice0 \<Rightarrow>
             (let totalPrice0 =
                    dec_add (dec_add (dec_add basePrice0 sizePrice0) durationPrice0)
                      endpointPrice0
              in Inr \<lparr> basePrice' = basePrice0,
                       sizePrice = sizePrice0,
                       durationPrice = durationPrice0,
                       endpointPrice = endpointPrice0,
                       totalPrice = totalPrice0,
                       pricingTier = ''calculated'' \<rparr>))"

subsection \<open>Loading a tier\<close>






subsection \<open>The pre-check of the usage-tracking middleware\<close>




section \<open>Anchoring a verification on three chains (the verification service)\<close>

text \<open>\<^verbatim>\<open>PromiseSettledResult\<close>, and its \<^verbatim>\<open>status\<close> field.\<close>

datatype 'a settled = Fulfilled 'a | Rejected error

datatype status = fulfilled | rejected

fun statusOf :: "'a settled \<Rightarrow> status" where
  "statusOf (Fulfilled v) = fulfilled"
| "statusOf (Rejected reason) = rejected"

text \<open>
  \<^verbatim>\<open>Promise.allSettled\<close>: every promise is awaited to its end, and the results keep the
  order of the promises.
\<close>

definition allSettled :: "(error + 'a) list \<Rightarrow> 'a settled list" where
  "allSettled promises = map (\<lambda>p. case p of Inl reason \<Rightarrow> Rejected reason | Inr v \<Rightarrow> Fulfilled v) promises"


text \<open>
  The three adapters of \<^verbatim>\<open>BlockchainService\<close>, each taking the verification hash to the
  transaction hash or to the error it throws (missing configuration included).
\<close>

record BlockchainService =
  anchorToEthereum :: "string \<Rightarrow> error + string"
  anchorToArbitrum :: "string \<Rightarrow> error + string"
  anchorToStarknet :: "string \<Rightarrow> error + string"


text \<open>
  The transaction-hash columns of a \<^verbatim>\<open>proof\<close> row; the same three keys make up
  \<^verbatim>\<open>updateData\<close>, where \<open>None\<close> is a key not set.
\<close>

record TxHashes =
  ethereumTxHash :: "string option"
  arbitrumTxHash :: "string option"
  starknetTxHash :: "string option"

record ProofRow = TxHashes +
  proofSubmissionId :: string

datatype LogLevel = INFO | WARN | ERROR

record VerificationLog =
  logSubmissionId :: string
  level :: LogLevel
  logMessage :: msg
  details :: "status list option"

text \<open>The tables the function writes, and a fault that makes every write throw.\<close>

record vdb =
  proofTable :: "ProofRow list"
  verificationLogTable :: "VerificationLog list"
  dbFault :: "error option"

text \<open>\<^verbatim>\<open>logVerification\<close> catches what its write throws.\<close>

definition logVerification ::
  "string \<Rightarrow> LogLevel \<Rightarrow> msg \<Rightarrow> status list option \<Rightarrow> vdb \<Rightarrow> (error + unit) \<times> vdb" where
  "logVerification sid lvl remark det db =
     (case dbFault db of
        Some err \<Rightarrow> (Inr (), db)
      | None \<Rightarrow>
          (Inr (), db\<lparr> verificationLogTable := verificationLogTable db @
                          [\<lparr> logSubmissionId = sid, level = lvl, logMessage = remark,
                             details = det \<rparr>] \<rparr>))"

definition applyUpdate :: "TxHashes \<Rightarrow> ProofRow \<Rightarrow> ProofRow" where
  "applyUpdate updateData row =
     row\<lparr> ethereumTxHash :=
            (case ethereumTxHash updateData of Some h \<Rightarrow> Some h | None \<Rightarrow> ethereumTxHash row),
          arbitrumTxHash :=
            (case arbitrumTxHash updateData of Some h \<Rightarrow> Some h | None \<Rightarrow> arbitrumTxHash row),
          starknetTxHash :=
            (case starknetTxHash updateData of Some h \<Rightarrow> Some h | None \<Rightarrow> starknetTxHash row) \<rparr>"

text \<open>
  \<^verbatim>\<open>prisma.proof.updateMany({ where: { submissionId }, data })\<close>: the rows of the
  submission take the data, the others stay.
\<close>

definition stamp :: "string \<Rightarrow> TxHashes \<Rightarrow> ProofRow \<Rightarrow> ProofRow" where
  "stamp sid updateData row =
     (if proofSubmissionId row = sid then applyUpdate updateData row else row)"

definition updateMany :: "string \<Rightarrow> TxHashes \<Rightarrow> vdb \<Rightarrow> error + vdb" where
  "updateMany sid updateData db =
     (case dbFault db of
        Some err \<Rightarrow> Inl err
      | None \<Rightarrow> Inr (db\<lparr> proofTable := map (stamp sid updateData) (proofTable db) \<rparr>))"

text \<open>\<^verbatim>\<open>anchorResults[i]?.status === 'fulfilled'\<close>, and the value then.\<close>

definition fulfilledValue :: "'a settled list \<Rightarrow> nat \<Rightarrow> 'a option" where
  "fulfilledValue rs i =
     (if i < length rs then (case rs ! i of Fulfilled v \<Rightarrow> Some v | Rejected reason \<Rightarrow> None)
      else None)"

definition anchorResults :: "BlockchainService \<Rightarrow> string \<Rightarrow> string settled list" where
  "anchorResults svc verificationHash =
     allSettled [anchorToEthereum svc verificationHash,
                 anchorToArbitrum svc verificationHash,
                 anchorToStarknet svc verificationHash]"

definition updateDataOf :: "string settled list \<Rightarrow> TxHashes" where
  "updateDataOf rs =
     \<lparr> ethereumTxHash = fulfilledValue rs 0,
       arbitrumTxHash = fulfilledValue rs 1,
       starknetTxHash = fulfilledValue rs 2 \<rparr>"

text \<open>\<^verbatim>\<open>Object.keys(updateData).length > 0\<close>\<close>

definition hasKeys :: "TxHashes \<Rightarrow> bool" where
  "hasKeys u = (ethereumTxHash u \<noteq> None \<or> arbitrumTxHash u \<noteq> None \<or> starknetTxHash u \<noteq> None)"

text \<open>The loop over the verification results: one \<^verbatim>\<open>updateMany\<close> per result.\<close>

fun updateProofs :: "nat \<Rightarrow> string \<Rightarrow> TxHashes \<Rightarrow> vdb \<Rightarrow> error + vdb" where
  "updateProofs 0 sid updateData db = Inr db"
| "updateProofs (Suc n) sid updateData db =
     (if hasKeys updateData then
        (case updateMany sid updateData db of
           Inl err \<Rightarrow> Inl err
         | Inr db' \<Rightarrow> updateProofs n sid updateData db')
      else updateProofs n sid updateData db)"

text \<open>
  \<^verbatim>\<open>anchorToBlockchains\<close>. The verification hash is a SHA-256 digest over the submission
  and the clock and enters as a parameter; \<open>resultCount\<close> is \<^verbatim>\<open>results.length\<close>. The body
  of the \<^verbatim>\<open>try\<close> is \<open>anchorBody\<close>; the \<^verbatim>\<open>catch\<close> logs a warning.
\<close>

definition anchorBody ::
  "BlockchainService \<Rightarrow> string \<Rightarrow> string \<Rightarrow> nat \<Rightarrow> vdb \<Rightarrow> (error + unit) \<times> vdb" where
  "anchorBody svc sid verificationHash resultCount db =
     (let db1 = snd (logVerification sid INFO
                       [Text ''Anchoring verification results to blockchains''] None db);
          rs = anchorResults svc verificationHash
      in case updateProofs resultCount sid (updateDataOf rs) db1 of
           Inl err \<Rightarrow> (Inl err, db1)
         | Inr db2 \<Rightarrow>
             logVerification sid INFO [Text ''Blockchain anchoring completed'']
               (Some (map statusOf rs)) db2)"

definition anchorToBlockchains ::
  "BlockchainService \<Rightarrow> string \<Rightarrow> string \<Rightarrow> nat \<Rightarrow> vdb \<Rightarrow> (error + unit) \<times> vdb" where
  "anchorToBlockchains svc sid verificationHash resultCount db =
     (case anchorBody svc sid verificationHash resultCount db of
        (Inl err, db') \<Rightarrow>
          logVerification sid WARN
            (Text ''Blockchain anchoring failed: '' #
               (if message err = [] then [Text ''Unknown error''] else message err)) None db'
      | (Inr u, db') \<Rightarrow> (Inr (), db'))"

section \<open>Sample inputs\<close>

definition quietCtx :: ctx where
  "quietCtx =
     \<lparr> clock = 1000,
       defaultLowBalanceThreshold = None,
       defaultAutoTopupEnabled = False,
       defaultAutoTopupAmount = None,
       sink = (\<lambda>ev. None) \<rparr>"

definition brokenSinkCtx :: ctx where
  "brokenSinkCtx = quietCtx\<lparr> sink := (\<lambda>ev. Some (Error [Text ''logger down''])) \<rparr>"

definition usageTx :: TransactionData where
  "usageTx =
     \<lparr> txType = USAGE,
       txDescription = Some ''API call: GET /api/v1/proofs'',
       txReference = None,
       txMetadata = None,
       txProcessedBy = None \<rparr>"

definition aliceRow :: UserCredit where
  "aliceRow =
     \<lparr> balance = 10,
       totalAllocated = 25,
       totalUsed = 15,
       lowBalanceThreshold = Some 8,
       autoTopupEnabled = True,
       autoTopupAmount = Some 50,
       isActive = True,
       suspendedAt = None,
       suspensionReason = None,
       creditId = 0,
       userId = ''alice'',
       updatedAt = 900 \<rparr>"

definition aliceStorage :: storage where
  "aliceStorage =
     \<lparr> userCredit = [''alice'' \<mapsto> aliceRow],
       creditTransaction = [],
       nextId = 1,
       balanceCache = Map.empty,
       delivered = [],
       refuses = (\<lambda>w. None) \<rparr>"

definition suspendedStorage :: storage where
  "suspendedStorage =
     aliceStorage\<lparr> userCredit :=
       [''alice'' \<mapsto> aliceRow\<lparr> isActive := False,
                                  suspendedAt := Some 950,
                                  suspensionReason := Some ''abuse'' \<rparr>] \<rparr>"

text \<open>A logger that throws on the low-balance warning alone.\<close>

definition warnFailsCtx :: ctx where
  "warnFailsCtx =
     quietCtx\<lparr> sink := (\<lambda>ev. case ev of
                                LowBalanceDetected uid b t \<Rightarrow> Some (Error [Text ''logger down''])
                              | other \<Rightarrow> None) \<rparr>"

text \<open>A database that has lost the \<^verbatim>\<open>creditTransaction\<close> table.\<close>

definition rowRefusingStorage :: storage where
  "rowRefusingStorage =
     aliceStorage\<lparr> refuses := (\<lambda>w. case w of
                                      CreditTransactionCreate \<Rightarrow>
                                        Some (Error [Text ''relation does not exist''])
                                    | other \<Rightarrow> None) \<rparr>"

text \<open>
  An account whose totals have 20 digits, as two calls leave it: 10000000000000000001
  credits added to a new account, 10000000000000000000 of them used.
\<close>

definition carolRow :: UserCredit where
  "carolRow =
     \<lparr> balance = 1,
       totalAllocated = 10000000000000000001,
       totalUsed = 10000000000000000000,
       lowBalanceThreshold = None,
       autoTopupEnabled = False,
       autoTopupAmount = None,
       isActive = True,
       suspendedAt = None,
       suspensionReason = None,
       creditId = 0,
       userId = ''carol'',
       updatedAt = 1000 \<rparr>"

definition topupTx :: TransactionData where
  "topupTx =
     \<lparr> txType = TOPUP,
       txDescription = Some ''top-up'',
       txReference = None,
       txMetadata = None,
       txProcessedBy = Some ''admin'' \<rparr>"

definition carolStorage :: storage where
  "carolStorage =
     run quietCtx (DeductCredits ''carol'' 10000000000000000000 usageTx)
       (run quietCtx (AddCredits ''carol'' 10000000000000000001 topupTx) emptyStorage)"

text \<open>
  The breaker of \<^verbatim>\<open>src/services/blockchain.ts\<close> for Ethereum, with its classifier:
  \<^verbatim>\<open>error.message.includes('RPC') || error.message.includes('network')\<close>.
\<close>

definition rpcDown :: error where
  "rpcDown = Error [Text ''RPC endpoint unreachable'']"

definition badInput :: error where
  "badInput = Error [Text ''invalid hash'']"

definition ethereumOptions :: CircuitBreakerOptions where
  "ethereumOptions =
     \<lparr> failureThreshold = 3,
       recoveryTimeout = 60000,
       monitoringPeriod = 120000,
       expectedErrors = Some (\<lambda>err. contains (shown (message err)) ''RPC''
                                   \<or> contains (shown (message err)) ''network'') \<rparr>"

definition ethereumBreaker :: CircuitBreaker where
  "ethereumBreaker = newCircuitBreaker ''ethereum'' ethereumOptions"

text \<open>Operations on a world that counts the calls made.\<close>

definition failingCall :: "error \<Rightarrow> int \<Rightarrow> (nat, string) operation" where
  "failingCall err took = (\<lambda>w now. (Inl err, now + took, Suc w))"

definition workingCall :: "string \<Rightarrow> int \<Rightarrow> (nat, string) operation" where
  "workingCall txHash took = (\<lambda>w now. (Inr txHash, now + took, Suc w))"





text \<open>The \<^verbatim>\<open>standard\<close> tier of \<^verbatim>\<open>DEFAULT_PRICING_TIERS\<close> and the call of the spec's example.\<close>

definition standardPricing :: PricingRule where
  "standardPricing =
     \<lparr> basePrice = 2 / 1000,
       sizeMultiplier = 2 / 10000,
       durationMultiplier = 2 / 100000,
       endpointPricing = Some [''/api/v1/auth'' \<mapsto> 1 / 1000,
                               ''/api/v1/proofs'' \<mapsto> 2 / 100,
                               ''/api/v1/verification'' \<mapsto> 1 / 100,
                               ''/api/v1/blockchain'' \<mapsto> 4 / 100],
       maxRequestSize = Some (5 * 1024 * 1024),
       maxDuration = Some 60000 \<rparr>"

definition proofsCall :: UsageParams where
  "proofsCall =
     \<lparr> endpoint = ''/api/v1/proofs'',
       requestSize = 2048,
       responseSize = 2048,
       duration = 2000 \<rparr>"







section \<open>Properties of the Decimal arithmetic\<close>

text \<open>
  The digit count is the one of the decimal notation, and the exponent the one of the
  leading digit.
\<close>

lemma digits_pos: "0 < n \<Longrightarrow> digits n = Suc (digits (n div 10))"
  by (subst digits.simps) simp

lemma digits_nonpos: "n \<le> 0 \<Longrightarrow> digits n = 0"
  by (subst digits.simps) simp

lemma digits_bounds: "0 < n \<Longrightarrow> 10 ^ (digits n - 1) \<le> n \<and> n < 10 ^ digits n"
proof (induction n rule: digits.induct)
  case (1 n)
  show ?case
  proof (cases "n div 10 \<le> 0")
    case True
    with 1(2) have "n < 10" by linarith
    moreover have "digits n = 1" using 1(2) True by (simp add: digits_pos digits_nonpos)
    ultimately show ?thesis using 1(2) by simp
  next
    case False
    then have pos: "0 < n div 10" by simp
    have n: "\<not> n \<le> 0" using 1(2) by simp
    from 1(1)[OF n pos]
    have lo: "10 ^ (digits (n div 10) - 1) \<le> n div 10" and hi: "n div 10 < 10 ^ digits (n div 10)"
      by simp_all
    have d: "digits n = Suc (digits (n div 10))" using 1(2) by (rule digits_pos)
    have d': "digits (n div 10) = Suc (digits (n div 10) - 1)"
      using pos by (simp add: digits_pos)
    have "(10::int) ^ (digits n - 1) = 10 * 10 ^ (digits (n div 10) - 1)"
      unfolding d using d' by (metis diff_Suc_1 power_Suc)
    also have "\<dots> \<le> 10 * (n div 10)" using lo by simp
    also have "\<dots> \<le> n" by presburger
    finally have a: "10 ^ (digits n - 1) \<le> n" .
    have "n < 10 * (n div 10 + 1)" by presburger
    also have "\<dots> \<le> 10 * 10 ^ digits (n div 10)" using hi by simp
    also have "\<dots> = 10 ^ digits n" unfolding d by simp
    finally have b: "n < 10 ^ digits n" .
    from a b show ?thesis by simp
  qed
qed

lemma quotient_of_abs_pos:
  assumes "x \<noteq> 0" and "quotient_of \<bar>x\<bar> = (p, q)"
  shows "0 < p" and "0 < q" and "\<bar>x\<bar> = of_int p / of_int q"
proof -
  show q: "0 < q" using assms(2) by (rule quotient_of_denom_pos)
  show x: "\<bar>x\<bar> = of_int p / of_int q" using assms(2) by (rule quotient_of_div)
  have "0 < \<bar>x\<bar>" using assms(1) by simp
  then have "0 < (of_int p :: rat) / of_int q" unfolding x .
  then show "0 < p" using q by (simp add: zero_less_divide_iff)
qed

lemma decimalExponent_bounds:
  assumes "x \<noteq> 0"
  shows "10 powi decimalExponent x \<le> \<bar>x\<bar>" and "\<bar>x\<bar> < 10 powi (decimalExponent x + 1)"
proof -
  obtain p q where pq: "quotient_of \<bar>x\<bar> = (p, q)" by (cases "quotient_of \<bar>x\<bar>")
  note P = quotient_of_abs_pos[OF assms pq]
  let ?d = "int (digits p) - int (digits q)"
  have e: "decimalExponent x = (if 10 powi ?d \<le> \<bar>x\<bar> then ?d else ?d - 1)"
    by (simp add: decimalExponent_def pq Let_def)
  from digits_bounds[OF P(1)] have p: "10 ^ (digits p - 1) \<le> p" "p < 10 ^ digits p" by simp_all
  from digits_bounds[OF P(2)] have q: "10 ^ (digits q - 1) \<le> q" "q < 10 ^ digits q" by simp_all
  have dp: "0 < digits p" using P(1) by (simp add: digits_pos)
  have dq: "0 < digits q" using P(2) by (simp add: digits_pos)
  have rp: "(10::rat) ^ (digits p - 1) \<le> of_int p" "(of_int p :: rat) < 10 ^ digits p"
    using p by (metis of_int_le_iff of_int_numeral of_int_power, metis of_int_less_iff of_int_numeral of_int_power)
  have rq: "(10::rat) ^ (digits q - 1) \<le> of_int q" "(of_int q :: rat) < 10 ^ digits q"
    using q by (metis of_int_le_iff of_int_numeral of_int_power, metis of_int_less_iff of_int_numeral of_int_power)
  have qpos: "(0::rat) < of_int q" using P(2) by simp
  have ppos: "(0::rat) < of_int p" using P(1) by simp
  have up: "\<bar>x\<bar> < 10 powi (?d + 1)"
  proof -
    have "\<bar>x\<bar> = of_int p / of_int q" by (rule P(3))
    also have "\<dots> < 10 ^ digits p / of_int q" using rp(2) qpos by (simp add: divide_strict_right_mono)
    also have "\<dots> \<le> 10 ^ digits p / 10 ^ (digits q - 1)"
      using rq(1) by (simp add: frac_le)
    also have "\<dots> = 10 powi (int (digits p) - int (digits q - 1))"
      by (simp add: power_int_diff)
    finally have "\<bar>x\<bar> < 10 powi (int (digits p) - int (digits q - 1))" .
    moreover have "int (digits p) - int (digits q - 1) = ?d + 1" using dq by simp
    ultimately show ?thesis by (simp only:)
  qed
  have lo: "10 powi (?d - 1) \<le> \<bar>x\<bar>"
  proof -
    have "?d - 1 = int (digits p - 1) - int (digits q)" using dp by simp
    then have "(10::rat) powi (?d - 1) = 10 powi (int (digits p - 1) - int (digits q))"
      by (rule arg_cong)
    also have "\<dots> = 10 ^ (digits p - 1) / 10 ^ digits q" by (simp add: power_int_diff)
    also have "\<dots> \<le> of_int p / 10 ^ digits q" using rp(1) by (simp add: divide_right_mono)
    also have "\<dots> \<le> of_int p / of_int q"
      using rq(2) qpos ppos by (simp add: frac_le)
    also have "\<dots> = \<bar>x\<bar>" by (rule P(3)[symmetric])
    finally show ?thesis .
  qed
  show "10 powi decimalExponent x \<le> \<bar>x\<bar>" unfolding e using lo by simp
  show "\<bar>x\<bar> < 10 powi (decimalExponent x + 1)" unfolding e using up by (simp add: not_le)
qed

text \<open>
  A whole number rounds to itself, and so does every decimal fraction written with at
  most 20 digits, wherever its point is.
\<close>

lemma roundHalfUp_of_int: "roundHalfUp (of_int m) = m"
proof -
  have a: "\<lfloor>(of_int k :: rat) + 1 / 2\<rfloor> = k" for k by (rule floor_unique) simp_all
  show ?thesis
  proof (cases "0 \<le> m")
    case True
    then show ?thesis using a[of m] by (simp add: roundHalfUp_def)
  next
    case False
    then show ?thesis using a[of "- m"] by (simp add: roundHalfUp_def)
  qed
qed

lemma unrounded_decimal:
  assumes "\<bar>n\<bar> < 10 ^ precision"
  shows "unrounded (of_int n / 10 ^ k)"
proof (cases "n = 0")
  case True
  then show ?thesis by (simp add: unrounded_def toSignificantDigits_def)
next
  case False
  define x :: rat where "x = of_int n / 10 ^ k"
  define e where "e = decimalExponent x"
  have x0: "x \<noteq> 0" using False by (simp add: x_def)
  have "\<bar>x\<bar> = of_int \<bar>n\<bar> / 10 ^ k" by (simp add: x_def)
  also have "\<dots> < 10 ^ precision / 10 ^ k"
  proof -
    have "(of_int \<bar>n\<bar> :: rat) < of_int (10 ^ precision)" using assms by (simp only: of_int_less_iff)
    then have "(of_int \<bar>n\<bar> :: rat) < 10 ^ precision" by simp
    then show ?thesis by (simp add: divide_strict_right_mono)
  qed
  also have "\<dots> = 10 powi (int precision - int k)" by (simp add: power_int_diff)
  finally have "\<bar>x\<bar> < 10 powi (int precision - int k)" .
  with decimalExponent_bounds(1)[OF x0]
  have lt: "(10::rat) powi e < 10 powi (int precision - int k)"
    unfolding e_def by (rule le_less_trans)
  have el: "e < int precision - int k"
  proof (rule ccontr)
    assume "\<not> e < int precision - int k"
    then have "int precision - int k \<le> e" by simp
    then have "(10::rat) powi (int precision - int k) \<le> 10 powi e"
      by (rule power_int_increasing) simp
    with lt show False by simp
  qed
  define j where "j = nat (int precision - int k - e - 1)"
  have j: "e - int precision + 1 = - int (k + j)" using el by (simp add: j_def)
  define u :: rat where "u = 10 powi (e - int precision + 1)"
  have u: "u = 1 / 10 ^ (k + j)"
    unfolding u_def j by (simp only: power_int_minus_divide power_int_of_nat)
  have p: "(10::rat) ^ (k + j) = 10 ^ k * 10 ^ j" by (rule power_add)
  have k0: "(10::rat) ^ k \<noteq> 0" by simp
  have q: "x / u = of_int (n * 10 ^ j)"
    unfolding u x_def p using k0 by simp
  have "toSignificantDigits precision x = of_int (roundHalfUp (x / u)) * u"
    using x0 by (simp add: toSignificantDigits_def Let_def u_def e_def)
  also have "\<dots> = of_int (n * 10 ^ j) * u"
    unfolding q roundHalfUp_of_int ..
  also have "\<dots> = x"
    unfolding u x_def p using k0 by simp
  finally show ?thesis by (simp add: unrounded_def x_def)
qed

lemma unrounded_whole: "\<bar>n\<bar> < 10 ^ precision \<Longrightarrow> unrounded (of_int n)"
  using unrounded_decimal[of n 0] by simp

text \<open>A sum or difference that needs no rounding is the exact one.\<close>

lemma dec_add_exact: "unrounded (x + y) \<Longrightarrow> dec_add x y = x + y"
  by (simp add: unrounded_def dec_add_def)

lemma dec_sub_exact: "unrounded (x - y) \<Longrightarrow> dec_sub x y = x - y"
  by (simp add: unrounded_def dec_sub_def)

text \<open>The sums and differences of the sample accounts.\<close>

lemma carol_balance: "dec_add 1 (1 / 2) = 3 / 2"
  by code_simp

lemma carol_allocated: "dec_add 10000000000000000001 (1 / 2) = 10000000000000000002"
  by code_simp

lemma carol_history:
  "dec_add 0 10000000000000000001 = 10000000000000000001"
  "dec_sub 10000000000000000001 10000000000000000000 = 1"
  "dec_add 0 10000000000000000000 = 10000000000000000000"
  by code_simp+

lemma alice_after: "dec_sub 10 3 = 7" "dec_add 15 3 = 18" "dec_add 10 3 = 13" "dec_add 25 3 = 28"
  by code_simp+

lemma alice_exact: "unrounded (10 - 3)" "unrounded (15 + 3)"
  by code_simp+

lemma bob_credit: "dec_add 0 5 = 5"
  by code_simp

section \<open>Properties of the credit ledger\<close>

subsection \<open>Invariants of the storage\<close>

text \<open>
  Reconciliation survives every operation whose sums and differences need no rounding.
  What the logger does, and what the database refuses, makes no difference to it.
\<close>

lemma ledger_inv_iff:
  "ledger_inv s = (\<forall>uid uc. userCredit s uid = Some uc \<longrightarrow> reconciled uc)"
  by (auto simp: ledger_inv_def ran_def)

lemma reportFailure_tables:
  "userCredit (snd (reportFailure c e s)) = userCredit s"
  "creditTransaction (snd (reportFailure c e s)) = creditTransaction s"
  "nextId (snd (reportFailure c e s)) = nextId s"
  "balanceCache (snd (reportFailure c e s)) = balanceCache s"
  "refuses (snd (reportFailure c e s)) = refuses s"
  by (auto simp: reportFailure_def split: option.splits)

lemma handleLowBalance_tables:
  "userCredit (snd (handleLowBalance c uid uc s)) = userCredit s"
  "creditTransaction (snd (handleLowBalance c uid uc s)) = creditTransaction s"
  "nextId (snd (handleLowBalance c uid uc s)) = nextId s"
  "balanceCache (snd (handleLowBalance c uid uc s)) = balanceCache s"
  "refuses (snd (handleLowBalance c uid uc s)) = refuses s"
  by (auto simp: handleLowBalance_def Let_def reportFailure_tables split: option.splits)

lemmas writes_defs = userCreditCreate_def userCreditUpdate_def creditTransactionCreate_def

lemma getBalance_inv: "ledger_inv s \<Longrightarrow> ledger_inv (snd (getBalance c uid s))"
  by (auto simp: ledger_inv_iff getBalance_def createCreditAccount_def Let_def reconciled_def
      writes_defs split: option.splits if_splits sum.splits)

lemma updateCreditSettings_inv:
  "ledger_inv s \<Longrightarrow> ledger_inv (snd (updateCreditSettings c uid st s))"
  by (auto simp: ledger_inv_iff updateCreditSettings_def Let_def writes_defs
      reconciled_def clearBalanceCache_def split: option.splits if_splits)

lemma suspendAccount_inv:
  "ledger_inv s \<Longrightarrow> ledger_inv (snd (suspendAccount c uid reason who s))"
  by (auto simp: ledger_inv_iff suspendAccount_def Let_def writes_defs
      reconciled_def clearBalanceCache_def split: option.splits if_splits)

lemma reactivateAccount_inv:
  "ledger_inv s \<Longrightarrow> ledger_inv (snd (reactivateAccount c uid who s))"
  by (auto simp: ledger_inv_iff reactivateAccount_def Let_def writes_defs
      reconciled_def clearBalanceCache_def split: option.splits if_splits)

lemma addCredits_inv:
  assumes "ledger_inv s" "unrounded (balanceOf s uid + amt)" "unrounded (allocatedOf s uid + amt)"
  shows "ledger_inv (snd (addCredits c uid amt td s))"
  using assms
  by (auto simp: ledger_inv_iff addCredits_def transaction_def createCreditAccount_def Let_def
      reconciled_def clearBalanceCache_def writes_defs balanceOf_def allocatedOf_def
      dec_add_exact split: option.splits if_splits sum.splits prod.splits)

lemma deductCredits_inv:
  assumes "ledger_inv s" "unrounded (balanceOf s uid - amt)" "unrounded (usedOf s uid + amt)"
  shows "ledger_inv (snd (deductCredits c uid amt td s))"
  using assms
  by (auto simp: ledger_inv_iff deductCredits_def transaction_def Let_def
      reconciled_def clearBalanceCache_def handleLowBalance_tables split_beta writes_defs
      balanceOf_def usedOf_def dec_add_exact dec_sub_exact
      split: option.splits if_splits sum.splits)

lemma run_inv: "ledger_inv s \<Longrightarrow> exactFor s op \<Longrightarrow> ledger_inv (run c op s)"
  by (cases op)
     (simp_all add: getBalance_inv addCredits_inv deductCredits_inv updateCreditSettings_inv
        suspendAccount_inv reactivateAccount_inv,
      simp add: ledger_inv_iff clearBalanceCache_def)

text \<open>
  No operation changes what the database refuses, and a Redis entry never outlives the
  absence of its account row; so a storage the operations build from the empty one
  refuses nothing and holds no entry for a user without an account.
\<close>

lemma cache_sound_run: "cache_sound s \<Longrightarrow> cache_sound (run c op s)"
  by (cases op)
     (auto simp: cache_sound_def getBalance_def addCredits_def deductCredits_def
        updateCreditSettings_def suspendAccount_def reactivateAccount_def
        transaction_def createCreditAccount_def Let_def split_beta clearBalanceCache_def
        handleLowBalance_tables dom_def writes_defs
        split: option.splits if_splits sum.splits prod.splits)

lemma refuses_run: "refuses (run c op s) = refuses s"
  by (cases op)
     (auto simp: getBalance_def addCredits_def deductCredits_def
        updateCreditSettings_def suspendAccount_def reactivateAccount_def
        transaction_def createCreditAccount_def Let_def split_beta clearBalanceCache_def
        handleLowBalance_tables writes_defs
        split: option.splits if_splits sum.splits prod.splits)

lemma reachable_cache_sound: "reachable s \<Longrightarrow> cache_sound s"
  by (induction rule: reachable.induct)
     (simp_all add: cache_sound_run, simp add: cache_sound_def emptyStorage_def)

lemma reachable_accepts: "reachable s \<Longrightarrow> refuses s = (\<lambda>w. None)"
  by (induction rule: reachable.induct)
     (simp_all add: refuses_run, simp add: emptyStorage_def)

lemma reachable_uncached:
  "reachable s \<Longrightarrow> userCredit s uid = None \<Longrightarrow> balanceCache s uid = None"
  using reachable_cache_sound[of s] by (auto simp: cache_sound_def)

subsection \<open>What a mutation writes\<close>

text \<open>
  An accepted mutation has changed the account row and appended its transaction row; a
  rejected one has left the tables as they were, whichever write or check rejected it.
\<close>

lemma addCredits_effect:
  "fst (addCredits c uid amt td s) = Inr b \<Longrightarrow> s' = snd (addCredits c uid amt td s) \<Longrightarrow>
     recorded s s' uid amt
   \<and> balanceOf s' uid = dec_add (balanceOf s uid) amt
   \<and> allocatedOf s' uid = dec_add (allocatedOf s uid) amt
   \<and> usedOf s' uid = usedOf s uid"
  by (auto simp: addCredits_def transaction_def createCreditAccount_def Let_def recorded_def
      balanceOf_def allocatedOf_def usedOf_def mkTransaction_def clearBalanceCache_def
      writes_defs split: option.splits sum.splits prod.splits)

lemma addCredits_rejected:
  "fst (addCredits c uid amt td s) = Inl e \<Longrightarrow> sameTables s (snd (addCredits c uid amt td s))"
  by (auto simp: addCredits_def transaction_def sameTables_def Let_def
      split: option.splits sum.splits prod.splits)

lemma deductCredits_effect:
  "fst (deductCredits c uid amt td s) = Inr b \<Longrightarrow> s' = snd (deductCredits c uid amt td s) \<Longrightarrow>
     recorded s s' uid amt
   \<and> balanceOf s' uid = dec_sub (balanceOf s uid) amt
   \<and> allocatedOf s' uid = allocatedOf s uid
   \<and> usedOf s' uid = dec_add (usedOf s uid) amt"
  by (auto simp: deductCredits_def transaction_def Let_def recorded_def split_beta
      balanceOf_def allocatedOf_def usedOf_def mkTransaction_def clearBalanceCache_def
      handleLowBalance_tables writes_defs
      split: option.splits if_splits sum.splits)

lemma deductCredits_rejected:
  "fst (deductCredits c uid amt td s) = Inl e \<Longrightarrow>
   sameTables s (snd (deductCredits c uid amt td s))"
  by (auto simp: deductCredits_def transaction_def sameTables_def Let_def split_beta
      split: option.splits sum.splits if_splits)

lemma addCredits_accepts:
  "refuses s = (\<lambda>w. None) \<Longrightarrow> \<exists>b. fst (addCredits c uid amt td s) = Inr b"
  by (auto simp: addCredits_def transaction_def createCreditAccount_def Let_def writes_defs
      split: option.splits)

lemma carol_account: "userCredit carolStorage = [''carol'' \<mapsto> carolRow]"
  and carol_accepts: "refuses carolStorage = (\<lambda>w. None)"
  by (simp_all add: carolStorage_def addCredits_def deductCredits_def transaction_def
      emptyStorage_def createCreditAccount_def userCreditCreate_def userCreditUpdate_def
      creditTransactionCreate_def clearBalanceCache_def carolRow_def quietCtx_def Let_def
      carol_history)

lemma alice_deduct_accepted:
  "fst (deductCredits quietCtx ''alice'' 3 usageTx aliceStorage) =
     Inr (toCreditBalance (aliceRow\<lparr> balance := 7, totalUsed := 18, updatedAt := 1000 \<rparr>))"
  by (simp add: deductCredits_def transaction_def aliceStorage_def aliceRow_def Let_def
      clearBalanceCache_def handleLowBalance_def quietCtx_def split_beta writes_defs alice_after)

lemma alice_row_refused:
  "fst (deductCredits quietCtx ''alice'' 3 usageTx rowRefusingStorage) =
     Inl (Error [Text ''relation does not exist''])"
  by (simp add: deductCredits_def transaction_def rowRefusingStorage_def aliceStorage_def
      aliceRow_def Let_def writes_defs alice_after)

subsection \<open>Rejection for insufficient credits\<close>

text \<open>
  Claim C1, as the code has it. For an account whose balance is below the amount asked,
  \<^verbatim>\<open>deductCredits\<close> rejects and leaves the whole storage as it was: balance,
  totalAllocated and totalUsed unchanged, no transaction row, cache untouched. The error
  is \<^verbatim>\<open>InsufficientCreditsError\<close> with required = amount and available = balance when the
  account is active; a suspended account is turned away one check earlier, with the
  error that names the suspension.
\<close>

theorem deductCredits_insufficient:
  assumes "userCredit s uid = Some uc" and "balance uc < amt"
  shows "deductCredits c uid amt td s =
           (Inl (if isActive uc then InsufficientCreditsError amt (balance uc) uid
                 else Error [Text ''Credit account suspended for user: '', Text uid]), s)"
  using assms by (simp add: deductCredits_def transaction_def)

theorem deductCredits_insufficient_witness:
  "deductCredits quietCtx ''alice'' 15 usageTx aliceStorage =
     (Inl (InsufficientCreditsError 15 10 ''alice''), aliceStorage)"
proof -
  have a: "userCredit aliceStorage ''alice'' = Some aliceRow" by (simp add: aliceStorage_def)
  have b: "balance aliceRow < 15" by (simp add: aliceRow_def)
  show ?thesis using deductCredits_insufficient[OF a b, of quietCtx usageTx]
    by (simp add: aliceRow_def)
qed

text \<open>
  The claim as worded speaks of every account state. A suspended account with balance 10
  asked for 15 is not answered with \<^verbatim>\<open>InsufficientCreditsError\<close>.
\<close>

theorem deductCredits_suspended_counterexample:
  "fst (deductCredits quietCtx ''alice'' 15 usageTx suspendedStorage) =
      Inl (Error [Text ''Credit account suspended for user: '', Text ''alice''])
   \<and> fst (deductCredits quietCtx ''alice'' 15 usageTx suspendedStorage) \<noteq>
      Inl (InsufficientCreditsError 15 10 ''alice'')"
  by (simp add: deductCredits_def transaction_def suspendedStorage_def aliceStorage_def
      aliceRow_def)

subsection \<open>Reconciliation and the transaction log\<close>

text \<open>
  Claim C2 as worded fails on a 20-digit account. Carol's account is created by adding
  10000000000000000001 credits, of which 10000000000000000000 are then used: balance 1,
  reconciled. Adding 0.5 makes the balance 1.5 and rounds the new total
  10000000000000000001.5 to 20 digits, 10000000000000000002: the row no longer has
  balance = totalAllocated - totalUsed.
\<close>


theorem rounding_breaks_reconciliation:
  "reachable carolStorage
   \<and> ledger_inv carolStorage
   \<and> \<not> ledger_inv (run quietCtx (AddCredits ''carol'' (1 / 2) topupTx) carolStorage)"
proof -
  have r: "reachable carolStorage"
    unfolding carolStorage_def by (intro reachable.step reachable.start)
  have a: "ledger_inv carolStorage"
    by (simp add: ledger_inv_def carol_account carolRow_def reconciled_def)
  have b: "userCredit (run quietCtx (AddCredits ''carol'' (1 / 2) topupTx) carolStorage) ''carol'' =
             Some (carolRow\<lparr> balance := 3 / 2, totalAllocated := 10000000000000000002 \<rparr>)"
    by (simp add: addCredits_def transaction_def carol_account carol_accepts carolRow_def Let_def
        writes_defs clearBalanceCache_def quietCtx_def carol_balance carol_allocated)
  have "\<not> reconciled (carolRow\<lparr> balance := 3 / 2, totalAllocated := 10000000000000000002 \<rparr>)"
    by (simp add: reconciled_def carolRow_def)
  with b have "\<not> ledger_inv (run quietCtx (AddCredits ''carol'' (1 / 2) topupTx) carolStorage)"
    unfolding ledger_inv_iff by blast
  with r a show ?thesis by simp
qed

text \<open>
  Claim C2 as amended. On a reconciled storage, every operation whose sums and
  differences have at most 20 significant digits keeps
  \<open>balance = totalAllocated - totalUsed\<close> on every account row. A database that refuses
  nothing accepts every \<^verbatim>\<open>addCredits\<close>. An accepted \<^verbatim>\<open>addCredits\<close> has added the amount,
  by \<^verbatim>\<open>Decimal.add\<close>, to balance and totalAllocated; an accepted \<^verbatim>\<open>deductCredits\<close> has
  taken it from balance by \<^verbatim>\<open>Decimal.sub\<close> and added it to totalUsed. Either has
  appended exactly one transaction row, whose balanceBefore and balanceAfter are the
  account's balance before and after. Row and account update are one transaction: a
  rejected \<^verbatim>\<open>addCredits\<close> or \<^verbatim>\<open>deductCredits\<close>, also one rejected after its account
  update was sent, leaves no account created, no account changed and no row appended.
\<close>

theorem ledger_reconciled_and_recorded:
  assumes "ledger_inv s"
  shows "(exactFor s op \<longrightarrow> ledger_inv (run c op s))
       \<and> (refuses s = (\<lambda>w. None) \<longrightarrow> (\<exists>b. fst (addCredits c uid amt td s) = Inr b))
       \<and> (\<forall>b. fst (addCredits c uid amt td s) = Inr b \<longrightarrow>
            (let s' = snd (addCredits c uid amt td s) in
               recorded s s' uid amt
             \<and> balanceOf s' uid = dec_add (balanceOf s uid) amt
             \<and> allocatedOf s' uid = dec_add (allocatedOf s uid) amt
             \<and> usedOf s' uid = usedOf s uid))
       \<and> (\<forall>e. fst (addCredits c uid amt td s) = Inl e \<longrightarrow>
            sameTables s (snd (addCredits c uid amt td s)))
       \<and> (\<forall>b. fst (deductCredits c uid amt td s) = Inr b \<longrightarrow>
            (let s' = snd (deductCredits c uid amt td s) in
               recorded s s' uid amt
             \<and> balanceOf s' uid = dec_sub (balanceOf s uid) amt
             \<and> allocatedOf s' uid = allocatedOf s uid
             \<and> usedOf s' uid = dec_add (usedOf s uid) amt))
       \<and> (\<forall>e. fst (deductCredits c uid amt td s) = Inl e \<longrightarrow>
            sameTables s (snd (deductCredits c uid amt td s)))"
proof (intro conjI allI impI)
  assume "exactFor s op"
  with assms show "ledger_inv (run c op s)" by (rule run_inv)
next
  assume "refuses s = (\<lambda>w. None)"
  then show "\<exists>b. fst (addCredits c uid amt td s) = Inr b" by (rule addCredits_accepts)
next
  fix b assume "fst (addCredits c uid amt td s) = Inr b"
  from addCredits_effect[OF this refl]
  show "let s' = snd (addCredits c uid amt td s) in
               recorded s s' uid amt
             \<and> balanceOf s' uid = dec_add (balanceOf s uid) amt
             \<and> allocatedOf s' uid = dec_add (allocatedOf s uid) amt
             \<and> usedOf s' uid = usedOf s uid"
    by (simp add: Let_def)
next
  fix e assume "fst (addCredits c uid amt td s) = Inl e"
  then show "sameTables s (snd (addCredits c uid amt td s))" by (rule addCredits_rejected)
next
  fix b assume "fst (deductCredits c uid amt td s) = Inr b"
  from deductCredits_effect[OF this refl]
  show "let s' = snd (deductCredits c uid amt td s) in
               recorded s s' uid amt
             \<and> balanceOf s' uid = dec_sub (balanceOf s uid) amt
             \<and> allocatedOf s' uid = allocatedOf s uid
             \<and> usedOf s' uid = dec_add (usedOf s uid) amt"
    by (simp add: Let_def)
next
  fix e assume "fst (deductCredits c uid amt td s) = Inl e"
  then show "sameTables s (snd (deductCredits c uid amt td s))" by (rule deductCredits_rejected)
qed

theorem ledger_reconciled_and_recorded_witness:
  "ledger_inv aliceStorage
   \<and> ledger_inv (run quietCtx (DeductCredits ''alice'' 3 usageTx) aliceStorage)
   \<and> (\<exists>b. fst (addCredits quietCtx ''alice'' 3 usageTx aliceStorage) = Inr b)
   \<and> recorded aliceStorage (snd (addCredits quietCtx ''alice'' 3 usageTx aliceStorage)) ''alice'' 3
   \<and> balanceOf (snd (addCredits quietCtx ''alice'' 3 usageTx aliceStorage)) ''alice'' = 13
   \<and> recorded aliceStorage (snd (deductCredits quietCtx ''alice'' 3 usageTx aliceStorage)) ''alice'' 3
   \<and> balanceOf (snd (deductCredits quietCtx ''alice'' 3 usageTx aliceStorage)) ''alice'' = 7
   \<and> usedOf (snd (deductCredits quietCtx ''alice'' 3 usageTx aliceStorage)) ''alice'' = 18
   \<and> sameTables rowRefusingStorage
        (snd (deductCredits quietCtx ''alice'' 3 usageTx rowRefusingStorage))"
proof -
  have a: "ledger_inv aliceStorage"
    by (simp add: ledger_inv_def aliceStorage_def aliceRow_def reconciled_def)
  have a': "ledger_inv rowRefusingStorage"
    by (simp add: ledger_inv_def rowRefusingStorage_def aliceStorage_def aliceRow_def
        reconciled_def)
  have x: "exactFor aliceStorage (DeductCredits ''alice'' 3 usageTx)"
    using alice_exact by (simp add: balanceOf_def usedOf_def aliceStorage_def aliceRow_def)
  have r: "refuses aliceStorage = (\<lambda>w. None)" by (simp add: aliceStorage_def)
  have v: "balanceOf aliceStorage ''alice'' = 10" "usedOf aliceStorage ''alice'' = 15"
    by (simp_all add: balanceOf_def usedOf_def aliceStorage_def aliceRow_def)
  note t = ledger_reconciled_and_recorded[OF a, of "DeductCredits ''alice'' 3 usageTx" quietCtx
             "''alice''" 3 usageTx]
  note t' = ledger_reconciled_and_recorded[OF a', of "DeductCredits ''alice'' 3 usageTx" quietCtx
             "''alice''" 3 usageTx]
  show ?thesis
    using a x r t t' alice_deduct_accepted alice_row_refused
    by (simp add: Let_def v alice_after)
qed

subsection \<open>The low-balance alert\<close>

text \<open>
  When an accepted deduction leaves the balance at or below the account's
  \<^verbatim>\<open>lowBalanceThreshold\<close>, \<^verbatim>\<open>handleLowBalance\<close> runs. As long as the \<^verbatim>\<open>logger.error\<close> of
  its \<^verbatim>\<open>catch\<close> does not throw, it resolves, and the logger has received the warning and,
  for an account with auto-topup, the auto-topup event, or the report of the call that
  threw; the deduction commits. When the warning and the report of its failure both
  throw, the error leaves \<^verbatim>\<open>handleLowBalance\<close> and the callback of \<^verbatim>\<open>$transaction\<close>: the
  deduction is rejected and rolled back, and only the cleared Redis entry remains of it.
\<close>

lemma handleLowBalance_reported:
  assumes "\<forall>e. sink c (HandleLowBalanceFailed e) = None"
  shows "fst (handleLowBalance c uid uc s) = Inr ()"
    and "delivered (snd (handleLowBalance c uid uc s)) =
           delivered s @
             (case sink c (LowBalanceDetected uid (balance uc) (lowBalanceThreshold uc)) of
                Some e \<Rightarrow> [HandleLowBalanceFailed e]
              | None \<Rightarrow>
                  LowBalanceDetected uid (balance uc) (lowBalanceThreshold uc) #
                  (case autoTopupAmount uc of
                     None \<Rightarrow> []
                   | Some topup \<Rightarrow>
                       if autoTopupEnabled uc then
                         (case sink c (AutoTopupTriggered uid topup) of
                            Some e \<Rightarrow> [HandleLowBalanceFailed e]
                          | None \<Rightarrow> [AutoTopupTriggered uid topup])
                       else []))"
  using assms
  by (auto simp: handleLowBalance_def reportFailure_def Let_def split: option.splits)

lemma handleLowBalance_unreported:
  assumes "sink c (LowBalanceDetected uid (balance uc) (lowBalanceThreshold uc)) = Some e"
      and "sink c (HandleLowBalanceFailed e) = Some e'"
  shows "handleLowBalance c uid uc s = (Inl e', s)"
  using assms by (simp add: handleLowBalance_def reportFailure_def)

lemma deductCredits_alert_committed:
  assumes "userCredit s uid = Some uc" and "isActive uc" and "amt \<le> balance uc"
      and "lowBalanceThreshold uc = Some t" and "dec_sub (balance uc) amt \<le> t"
      and "refuses s = (\<lambda>w. None)"
      and "\<forall>e. sink c (HandleLowBalanceFailed e) = None"
      and "uc' = uc\<lparr> balance := dec_sub (balance uc) amt,
                       totalUsed := dec_add (totalUsed uc) amt,
                       updatedAt := clock c \<rparr>"
  shows "fst (deductCredits c uid amt td s) = Inr (toCreditBalance uc')"
    and "userCredit (snd (deductCredits c uid amt td s)) = (userCredit s)(uid \<mapsto> uc')"
    and "creditTransaction (snd (deductCredits c uid amt td s)) =
           creditTransaction s @
             [mkTransaction uc' td amt (balance uc) (dec_sub (balance uc) amt)]"
    and "delivered (snd (deductCredits c uid amt td s)) =
           delivered s @
             (case sink c (LowBalanceDetected uid (dec_sub (balance uc) amt) (Some t)) of
                Some e \<Rightarrow> [HandleLowBalanceFailed e]
              | None \<Rightarrow>
                  LowBalanceDetected uid (dec_sub (balance uc) amt) (Some t) #
                  (case autoTopupAmount uc of
                     None \<Rightarrow> []
                   | Some topup \<Rightarrow>
                       if autoTopupEnabled uc then
                         (case sink c (AutoTopupTriggered uid topup) of
                            Some e \<Rightarrow> [HandleLowBalanceFailed e]
                          | None \<Rightarrow> [AutoTopupTriggered uid topup])
                       else []))"
proof -
  let ?s4 = "clearBalanceCache uid
               (s\<lparr> userCredit := (userCredit s)(uid \<mapsto> uc'),
                    creditTransaction := creditTransaction s @
                      [mkTransaction uc' td amt (balance uc) (dec_sub (balance uc) amt)] \<rparr>)"
  have d: "deductCredits c uid amt td s =
             (Inr (toCreditBalance uc'), snd (handleLowBalance c uid uc' ?s4))"
    using assms(1-6,8) handleLowBalance_reported(1)[OF assms(7), of uid uc' ?s4]
    by (simp add: deductCredits_def transaction_def Let_def split_beta writes_defs)
  show "fst (deductCredits c uid amt td s) = Inr (toCreditBalance uc')"
    unfolding d by simp
  show "userCredit (snd (deductCredits c uid amt td s)) = (userCredit s)(uid \<mapsto> uc')"
    unfolding d by (simp add: handleLowBalance_tables clearBalanceCache_def)
  show "creditTransaction (snd (deductCredits c uid amt td s)) =
           creditTransaction s @
             [mkTransaction uc' td amt (balance uc) (dec_sub (balance uc) amt)]"
    unfolding d by (simp add: handleLowBalance_tables clearBalanceCache_def)
  have e: "delivered ?s4 = delivered s" by (simp add: clearBalanceCache_def)
  have f: "balance uc' = dec_sub (balance uc) amt" "lowBalanceThreshold uc' = Some t"
          "autoTopupAmount uc' = autoTopupAmount uc" "autoTopupEnabled uc' = autoTopupEnabled uc"
    using assms(4,8) by simp_all
  show "delivered (snd (deductCredits c uid amt td s)) =
           delivered s @
             (case sink c (LowBalanceDetected uid (dec_sub (balance uc) amt) (Some t)) of
                Some e \<Rightarrow> [HandleLowBalanceFailed e]
              | None \<Rightarrow>
                  LowBalanceDetected uid (dec_sub (balance uc) amt) (Some t) #
                  (case autoTopupAmount uc of
                     None \<Rightarrow> []
                   | Some topup \<Rightarrow>
                       if autoTopupEnabled uc then
                         (case sink c (AutoTopupTriggered uid topup) of
                            Some e \<Rightarrow> [HandleLowBalanceFailed e]
                          | None \<Rightarrow> [AutoTopupTriggered uid topup])
                       else []))"
    unfolding d using handleLowBalance_reported(2)[OF assms(7), of uid uc' ?s4]
    unfolding e f by simp
qed

lemma deductCredits_alert_rolled_back:
  assumes "userCredit s uid = Some uc" and "isActive uc" and "amt \<le> balance uc"
      and "lowBalanceThreshold uc = Some t" and "dec_sub (balance uc) amt \<le> t"
      and "refuses s = (\<lambda>w. None)"
      and "sink c (LowBalanceDetected uid (dec_sub (balance uc) amt) (Some t)) = Some e"
      and "sink c (HandleLowBalanceFailed e) = Some e'"
  shows "deductCredits c uid amt td s = (Inl e', clearBalanceCache uid s)"
proof -
  let ?uc' = "uc\<lparr> balance := dec_sub (balance uc) amt,
                    totalUsed := dec_add (totalUsed uc) amt,
                    updatedAt := clock c \<rparr>"
  have w: "sink c (LowBalanceDetected uid (balance ?uc') (lowBalanceThreshold ?uc')) = Some e"
    using assms(4,7) by simp
  show ?thesis
    using assms(1-6)
    by (simp add: deductCredits_def transaction_def Let_def split_beta writes_defs
        handleLowBalance_unreported[OF w assms(8)] clearBalanceCache_def)
qed

text \<open>
  Claim C7 fails on the code. Alice has balance 10 and threshold 8, and 3 credits are
  deducted through a logger whose every call throws. The call rejects with the logger's
  error and the storage is as before: balance 10, no transaction row. Through a quiet
  logger the same deduction is accepted, and through a logger that throws on the warning
  alone it is accepted too, the failure reported and the balance 7.
\<close>

theorem low_balance_alert_rolls_back:
  "deductCredits brokenSinkCtx ''alice'' 3 usageTx aliceStorage =
     (Inl (Error [Text ''logger down'']), aliceStorage)
   \<and> balanceOf (snd (deductCredits brokenSinkCtx ''alice'' 3 usageTx aliceStorage)) ''alice'' = 10
   \<and> creditTransaction (snd (deductCredits brokenSinkCtx ''alice'' 3 usageTx aliceStorage)) = []
   \<and> fst (deductCredits quietCtx ''alice'' 3 usageTx aliceStorage) =
       Inr (toCreditBalance (aliceRow\<lparr> balance := 7, totalUsed := 18, updatedAt := 1000 \<rparr>))
   \<and> delivered (snd (deductCredits warnFailsCtx ''alice'' 3 usageTx aliceStorage)) =
       [HandleLowBalanceFailed (Error [Text ''logger down''])]
   \<and> balanceOf (snd (deductCredits warnFailsCtx ''alice'' 3 usageTx aliceStorage)) ''alice'' = 7"
proof -
  have 1: "deductCredits brokenSinkCtx ''alice'' 3 usageTx aliceStorage =
     (Inl (Error [Text ''logger down'']), aliceStorage)"
    by (simp add: deductCredits_def transaction_def aliceStorage_def aliceRow_def Let_def
      clearBalanceCache_def handleLowBalance_def reportFailure_def brokenSinkCtx_def quietCtx_def
      split_beta writes_defs alice_after)
  have 2: "fst (deductCredits quietCtx ''alice'' 3 usageTx aliceStorage) =
       Inr (toCreditBalance (aliceRow\<lparr> balance := 7, totalUsed := 18, updatedAt := 1000 \<rparr>))"
    by (simp add: deductCredits_def transaction_def aliceStorage_def aliceRow_def Let_def
      clearBalanceCache_def handleLowBalance_def quietCtx_def split_beta writes_defs alice_after)
  have 3: "delivered (snd (deductCredits warnFailsCtx ''alice'' 3 usageTx aliceStorage)) =
       [HandleLowBalanceFailed (Error [Text ''logger down''])]"
     "balanceOf (snd (deductCredits warnFailsCtx ''alice'' 3 usageTx aliceStorage)) ''alice'' = 7"
    by (simp_all add: deductCredits_def transaction_def aliceStorage_def aliceRow_def Let_def
      clearBalanceCache_def handleLowBalance_def reportFailure_def warnFailsCtx_def quietCtx_def
      split_beta writes_defs alice_after balanceOf_def)
  have 4: "balanceOf aliceStorage ''alice'' = 10" "creditTransaction aliceStorage = []"
    by (simp_all add: balanceOf_def aliceStorage_def aliceRow_def)
  show ?thesis unfolding 1 using 2 3 4 by simp
qed

subsection \<open>Lazy account creation\<close>

text \<open>
  Claim C10. For a user without an account row, in any storage the service can reach:
  \<^verbatim>\<open>getBalance\<close> creates the active row with balance, totalAllocated and totalUsed 0
  and answers with it, writing no transaction row; \<^verbatim>\<open>addCredits\<close> creates the same row
  and credits it, recording one transaction from 0 to \<^verbatim>\<open>new Decimal(0).add(amount)\<close>;
  \<^verbatim>\<open>deductCredits\<close> throws the account-not-found error and leaves the storage
  untouched.
\<close>

theorem lazy_account_creation_asymmetric:
  assumes "reachable s" and "userCredit s uid = None"
  shows "(let fresh = fst (createCreditAccount c uid s);
              credited = fresh\<lparr> balance := dec_add 0 amt, totalAllocated := dec_add 0 amt,
                                 updatedAt := clock c \<rparr>
          in balance fresh = 0 \<and> totalAllocated fresh = 0 \<and> totalUsed fresh = 0
           \<and> isActive fresh
           \<and> fst (getBalance c uid s) = Inr (toCreditBalance fresh)
           \<and> userCredit (snd (getBalance c uid s)) = (userCredit s)(uid \<mapsto> fresh)
           \<and> creditTransaction (snd (getBalance c uid s)) = creditTransaction s
           \<and> fst (addCredits c uid amt td s) = Inr (toCreditBalance credited)
           \<and> userCredit (snd (addCredits c uid amt td s)) = (userCredit s)(uid \<mapsto> credited)
           \<and> creditTransaction (snd (addCredits c uid amt td s)) =
               creditTransaction s @ [mkTransaction credited td amt 0 (dec_add 0 amt)])
       \<and> deductCredits c uid amt td s =
           (Inl (Error [Text ''Credit account not found for user: '', Text uid]), s)"
proof -
  have nc: "balanceCache s uid = None" using assms by (rule reachable_uncached)
  have nr: "refuses s = (\<lambda>w. None)" using assms(1) by (rule reachable_accepts)
  have g: "fst (getBalance c uid s) = Inr (toCreditBalance (fst (createCreditAccount c uid s)))"
          "userCredit (snd (getBalance c uid s)) =
             (userCredit s)(uid \<mapsto> fst (createCreditAccount c uid s))"
          "creditTransaction (snd (getBalance c uid s)) = creditTransaction s"
    using assms(2) nc nr
    by (simp_all add: getBalance_def createCreditAccount_def Let_def writes_defs)
  have f: "balance (fst (createCreditAccount c uid s)) = 0"
          "totalAllocated (fst (createCreditAccount c uid s)) = 0"
          "totalUsed (fst (createCreditAccount c uid s)) = 0"
          "isActive (fst (createCreditAccount c uid s))"
    by (simp_all add: createCreditAccount_def Let_def)
  have a: "fst (addCredits c uid amt td s) =
             Inr (toCreditBalance ((fst (createCreditAccount c uid s))
                    \<lparr> balance := dec_add 0 amt, totalAllocated := dec_add 0 amt,
                       updatedAt := clock c \<rparr>))"
          "userCredit (snd (addCredits c uid amt td s)) =
             (userCredit s)(uid \<mapsto> (fst (createCreditAccount c uid s))
                    \<lparr> balance := dec_add 0 amt, totalAllocated := dec_add 0 amt,
                       updatedAt := clock c \<rparr>)"
          "creditTransaction (snd (addCredits c uid amt td s)) =
             creditTransaction s @
               [mkTransaction ((fst (createCreditAccount c uid s))
                    \<lparr> balance := dec_add 0 amt, totalAllocated := dec_add 0 amt,
                       updatedAt := clock c \<rparr>)
                  td amt 0 (dec_add 0 amt)]"
    using assms(2) nr
    by (simp_all add: addCredits_def transaction_def createCreditAccount_def Let_def
        clearBalanceCache_def writes_defs)
  have d: "deductCredits c uid amt td s =
           (Inl (Error [Text ''Credit account not found for user: '', Text uid]), s)"
    using assms(2) by (simp add: deductCredits_def transaction_def)
  show ?thesis unfolding Let_def
    by (intro conjI) (rule f g a d)+
qed

theorem lazy_account_creation_asymmetric_witness:
  "balanceOf (snd (getBalance quietCtx ''bob'' emptyStorage)) ''bob'' = 0
   \<and> userCredit (snd (getBalance quietCtx ''bob'' emptyStorage)) ''bob'' \<noteq> None
   \<and> balanceOf (snd (addCredits quietCtx ''bob'' 5 usageTx emptyStorage)) ''bob'' = 5
   \<and> deductCredits quietCtx ''bob'' 5 usageTx emptyStorage =
       (Inl (Error [Text ''Credit account not found for user: '', Text ''bob'']), emptyStorage)"
proof -
  have a: "userCredit emptyStorage ''bob'' = None" by (simp add: emptyStorage_def)
  show ?thesis
    using lazy_account_creation_asymmetric[OF reachable.start a, of quietCtx 5 usageTx]
    by (simp add: Let_def balanceOf_def createCreditAccount_def bob_credit)
qed

section \<open>Properties of the circuit breaker\<close>

lemma onFailure_uncounted: "\<not> counted b err \<Longrightarrow> onFailure b err now = b"
  by (auto simp: onFailure_def counted_def split: option.splits)

lemma onFailure_counted_closed:
  assumes "counted b err" "state b = CLOSED"
  shows "onFailure b err now =
     (if failureThreshold (options b) \<le> failureCount b + 1
      then b\<lparr> failureCount := failureCount b + 1, lastFailureTime := Some now,
               state := OPEN, nextAttemptTime := now + recoveryTimeout (options b) \<rparr>
      else b\<lparr> failureCount := failureCount b + 1, lastFailureTime := Some now \<rparr>)"
  using assms by (auto simp: onFailure_def counted_def Let_def split: option.splits)

lemma execute_failure_closed:
  assumes "state b = CLOSED" "operation w now = (Inl err, settled, w')" "counted b err"
  shows "breaker (execute b now operation w) = onFailure b err settled"
  using assms by (simp add: execute_def admit_def)

lemma execute_open_early:
  assumes "state b = OPEN" "now < nextAttemptTime b"
  shows "execute b now operation w =
           \<lparr> outcome = Inl (CircuitBreakerOpenError (serviceName b)), breaker = b, world = w \<rparr>"
  using assms by (simp add: execute_def admit_def)

lemma execute_open_probe_success:
  assumes "state b = OPEN" "nextAttemptTime b \<le> now" "operation w now = (Inr v, settled, w')"
  shows "execute b now operation w =
           \<lparr> outcome = Inr v, breaker = b\<lparr> state := CLOSED, failureCount := 0 \<rparr>, world = w' \<rparr>"
  using assms by (simp add: execute_def admit_def onSuccess_def)

lemma admit_options: "admit b now = Inr b1 \<Longrightarrow> options b1 = options b"
  by (auto simp: admit_def split: if_splits)

text \<open>What the classifier of the Ethereum breaker says of the two sample errors.\<close>

lemma rpcDown_classified:
  "contains (shown (message rpcDown)) ''RPC'' \<or> contains (shown (message rpcDown)) ''network''"
  by code_simp

lemma badInput_unclassified:
  "\<not> (contains (shown (message badInput)) ''RPC''
      \<or> contains (shown (message badInput)) ''network'')"
  by code_simp

text \<open>
  Claim C3. With \<^verbatim>\<open>failureThreshold = 3\<close>, a CLOSED breaker with no failure counted stays
  CLOSED through two counted failures and is OPEN after the third, with
  \<^verbatim>\<open>nextAttemptTime\<close> the clock reading at that failure plus \<^verbatim>\<open>recoveryTimeout\<close>. While
  OPEN, every call made before \<^verbatim>\<open>nextAttemptTime\<close> gets the breaker-open error, and the
  world is as before for whatever operation was passed, so the operation was not run; the
  breaker itself is unchanged, so this holds call after call. The first call at or after
  \<^verbatim>\<open>nextAttemptTime\<close> is admitted as HALF_OPEN; the operation runs once (the world is
  the one a single run leaves) and, when it succeeds, the breaker is CLOSED with
  \<^verbatim>\<open>failureCount = 0\<close>.
\<close>

theorem breaker_threshold_three:
  fixes op1 op2 op3 :: "('w, 'a) operation"
  assumes thr: "failureThreshold (options b0) = 3"
      and closed: "state b0 = CLOSED" and zero: "failureCount b0 = 0"
      and f1: "op1 w1 n1 = (Inl e1, t1, w1')" and c1: "counted b0 e1"
      and f2: "op2 w2 n2 = (Inl e2, t2, w2')" and c2: "counted b0 e2"
      and f3: "op3 w3 n3 = (Inl e3, t3, w3')" and c3: "counted b0 e3"
  defines "b1 \<equiv> breaker (execute b0 n1 op1 w1)"
  defines "b2 \<equiv> breaker (execute b1 n2 op2 w2)"
  defines "b3 \<equiv> breaker (execute b2 n3 op3 w3)"
  shows "state b1 = CLOSED \<and> state b2 = CLOSED
       \<and> state b3 = OPEN
       \<and> nextAttemptTime b3 = t3 + recoveryTimeout (options b0)
       \<and> (\<forall>now (operation :: ('w, 'a) operation) w. now < nextAttemptTime b3 \<longrightarrow>
             execute b3 now operation w =
               \<lparr> outcome = Inl (CircuitBreakerOpenError (serviceName b0)),
                 breaker = b3, world = w \<rparr>)
       \<and> (\<forall>now. nextAttemptTime b3 \<le> now \<longrightarrow>
             admit b3 now = Inr (b3\<lparr> state := HALF_OPEN \<rparr>))
       \<and> (\<forall>now (operation :: ('w, 'a) operation) w v settled w'.
             nextAttemptTime b3 \<le> now \<and> operation w now = (Inr v, settled, w') \<longrightarrow>
             execute b3 now operation w =
               \<lparr> outcome = Inr v, breaker = b3\<lparr> state := CLOSED, failureCount := 0 \<rparr>,
                 world = w' \<rparr>
           \<and> state (breaker (execute b3 now operation w)) = CLOSED
           \<and> failureCount (breaker (execute b3 now operation w)) = 0)"
proof -
  have b1: "b1 = b0\<lparr> failureCount := 1, lastFailureTime := Some t1 \<rparr>"
    unfolding b1_def execute_failure_closed[where operation=op1 and w=w1 and now=n1, OF closed f1 c1]
      onFailure_counted_closed[OF c1 closed]
    using thr zero by simp
  have c2': "counted b1 e2" using c2 by (simp add: b1 counted_def)
  have s1: "state b1 = CLOSED" using closed by (simp add: b1)
  have b2: "b2 = b0\<lparr> failureCount := 2, lastFailureTime := Some t2 \<rparr>"
    unfolding b2_def execute_failure_closed[where operation=op2 and w=w2 and now=n2, OF s1 f2 c2']
      onFailure_counted_closed[OF c2' s1]
    using thr by (simp add: b1)
  have c3': "counted b2 e3" using c3 by (simp add: b2 counted_def)
  have s2: "state b2 = CLOSED" using closed by (simp add: b2)
  have b3: "b3 = b0\<lparr> failureCount := 3, lastFailureTime := Some t3, state := OPEN,
                     nextAttemptTime := t3 + recoveryTimeout (options b0) \<rparr>"
    unfolding b3_def execute_failure_closed[where operation=op3 and w=w3 and now=n3, OF s2 f3 c3']
      onFailure_counted_closed[OF c3' s2]
    using thr by (simp add: b2)
  have s3: "state b3 = OPEN" by (simp add: b3)
  have n3: "nextAttemptTime b3 = t3 + recoveryTimeout (options b0)" by (simp add: b3)
  have nm: "serviceName b3 = serviceName b0" by (simp add: b3)
  have early: "\<forall>now (operation :: ('w, 'a) operation) w. now < nextAttemptTime b3 \<longrightarrow>
             execute b3 now operation w =
               \<lparr> outcome = Inl (CircuitBreakerOpenError (serviceName b0)),
                 breaker = b3, world = w \<rparr>"
    by (simp add: execute_open_early[OF s3] nm)
  have adm: "\<forall>now. nextAttemptTime b3 \<le> now \<longrightarrow>
             admit b3 now = Inr (b3\<lparr> state := HALF_OPEN \<rparr>)"
    using s3 by (simp add: admit_def)
  have probe: "\<forall>now (operation :: ('w, 'a) operation) w v settled w'.
             nextAttemptTime b3 \<le> now \<and> operation w now = (Inr v, settled, w') \<longrightarrow>
             execute b3 now operation w =
               \<lparr> outcome = Inr v, breaker = b3\<lparr> state := CLOSED, failureCount := 0 \<rparr>,
                 world = w' \<rparr>
           \<and> state (breaker (execute b3 now operation w)) = CLOSED
           \<and> failureCount (breaker (execute b3 now operation w)) = 0"
    by (simp add: execute_open_probe_success[OF s3])
  from s1 s2 s3 n3 early adm probe show ?thesis by blast
qed

theorem breaker_threshold_three_witness:
  "state (breaker (execute (breaker (execute (breaker (execute ethereumBreaker 100
       (failingCall rpcDown 5) 0)) 200 (failingCall rpcDown 5) 1)) 300
       (failingCall rpcDown 5) 2)) = OPEN
   \<and> nextAttemptTime (breaker (execute (breaker (execute (breaker (execute ethereumBreaker 100
       (failingCall rpcDown 5) 0)) 200 (failingCall rpcDown 5) 1)) 300
       (failingCall rpcDown 5) 2)) = 60305
   \<and> world (execute (breaker (execute (breaker (execute (breaker (execute ethereumBreaker 100
       (failingCall rpcDown 5) 0)) 200 (failingCall rpcDown 5) 1)) 300
       (failingCall rpcDown 5) 2)) 1000 (workingCall ''0xabc'' 5) 3) = 3
   \<and> state (breaker (execute (breaker (execute (breaker (execute (breaker (execute
       ethereumBreaker 100
       (failingCall rpcDown 5) 0)) 200 (failingCall rpcDown 5) 1)) 300
       (failingCall rpcDown 5) 2)) 70000 (workingCall ''0xabc'' 5) 3)) = CLOSED"
proof -
  have thr: "failureThreshold (options ethereumBreaker) = 3"
    by (simp add: ethereumBreaker_def newCircuitBreaker_def ethereumOptions_def)
  have closed: "state ethereumBreaker = CLOSED"
    by (simp add: ethereumBreaker_def newCircuitBreaker_def)
  have zero: "failureCount ethereumBreaker = 0"
    by (simp add: ethereumBreaker_def newCircuitBreaker_def)
  have cnt: "counted ethereumBreaker rpcDown"
    using rpcDown_classified
    by (simp add: counted_def ethereumBreaker_def newCircuitBreaker_def ethereumOptions_def)
  have rt: "recoveryTimeout (options ethereumBreaker) = 60000"
    by (simp add: ethereumBreaker_def newCircuitBreaker_def ethereumOptions_def)
  have f1: "failingCall rpcDown 5 0 100 = (Inl rpcDown, 105, 1)"
    and f2: "failingCall rpcDown 5 1 200 = (Inl rpcDown, 205, 2)"
    and f3: "failingCall rpcDown 5 2 300 = (Inl rpcDown, 305, 3)"
    by (simp_all add: failingCall_def)
  have ok: "workingCall ''0xabc'' 5 3 70000 = (Inr ''0xabc'', 70005, 4)"
    by (simp add: workingCall_def)
  note T = breaker_threshold_three[where ?op1.0 = "failingCall rpcDown 5"
      and ?op2.0 = "failingCall rpcDown 5" and ?op3.0 = "failingCall rpcDown 5"
      and ?w1.0 = 0 and ?w2.0 = 1 and ?w3.0 = 2 and ?n1.0 = 100 and ?n2.0 = 200 and ?n3.0 = 300,
      OF thr closed zero f1 cnt f2 cnt f3 cnt]
  let ?b3 = "breaker (execute (breaker (execute (breaker (execute ethereumBreaker 100
       (failingCall rpcDown 5) 0)) 200 (failingCall rpcDown 5) 1)) 300
       (failingCall rpcDown 5) 2)"
  note c3 = T[THEN conjunct2, THEN conjunct2]
  have o: "state ?b3 = OPEN" by (rule c3[THEN conjunct1])
  have n: "nextAttemptTime ?b3 = 60305"
    using c3[THEN conjunct2, THEN conjunct1] by (simp only: rt)
  note early = c3[THEN conjunct2, THEN conjunct2, THEN conjunct1, rule_format]
  note probe = c3[THEN conjunct2, THEN conjunct2, THEN conjunct2, THEN conjunct2, rule_format]
  have lt: "1000 < nextAttemptTime ?b3" unfolding n by simp
  have ge: "nextAttemptTime ?b3 \<le> 70000" unfolding n by simp
  have e: "world (execute ?b3 1000 (workingCall ''0xabc'' 5) 3) = 3"
    unfolding early[where now=1000 and operation="workingCall ''0xabc'' 5" and w=3, OF lt] by simp
  have p: "state (breaker (execute ?b3 70000 (workingCall ''0xabc'' 5) 3)) = CLOSED"
    using probe[where now=70000 and operation="workingCall ''0xabc'' 5" and w=3, OF conjI[OF ge ok]]
    by (elim conjE)
  from o n e p show ?thesis by (intro conjI)
qed

text \<open>
  Claim C8. Under a classifier that does not count the error, \<^verbatim>\<open>onFailure\<close> returns the
  breaker as it is, in every state: state, failureCount, lastFailureTime and
  nextAttemptTime are those the breaker had when the operation was started. \<^verbatim>\<open>execute\<close>
  rethrows the same error, and the breaker it leaves is the one \<open>admit\<close> let through:
  the breaker itself when it was CLOSED or HALF_OPEN, and the HALF_OPEN breaker \<open>admit\<close>
  made of an OPEN one whose recovery time had come, before the operation ran.
\<close>

theorem unclassified_failure_leaves_breaker:
  assumes "expectedErrors (options b) = Some classify" and "\<not> classify err"
  shows "onFailure b err settled = b
       \<and> (\<forall>now (operation :: ('w, 'a) operation) w w' admitted.
            admit b now = Inr admitted \<and> operation w now = (Inl err, settled, w') \<longrightarrow>
            execute b now operation w =
              \<lparr> outcome = Inl err, breaker = admitted, world = w' \<rparr>)
       \<and> (\<forall>now (operation :: ('w, 'a) operation) w w'.
            state b \<noteq> OPEN \<and> operation w now = (Inl err, settled, w') \<longrightarrow>
            execute b now operation w = \<lparr> outcome = Inl err, breaker = b, world = w' \<rparr>)"
proof -
  have u: "\<not> counted b err" using assms by (simp add: counted_def)
  have 1: "onFailure b err settled = b" using u by (rule onFailure_uncounted)
  have 2: "execute b now operation w = \<lparr> outcome = Inl err, breaker = admitted, world = w' \<rparr>"
    if "admit b now = Inr admitted" "operation w now = (Inl err, settled, w')"
    for now and operation :: "('w, 'a) operation" and w w' admitted
  proof -
    have "\<not> counted admitted err"
      using u admit_options[OF that(1)] by (simp add: counted_def)
    then have "onFailure admitted err settled = admitted" by (rule onFailure_uncounted)
    with that show ?thesis by (simp add: execute_def)
  qed
  have 3: "execute b now operation w = \<lparr> outcome = Inl err, breaker = b, world = w' \<rparr>"
    if "state b \<noteq> OPEN" "operation w now = (Inl err, settled, w')"
    for now and operation :: "('w, 'a) operation" and w w'
    using 2[of now b operation w w'] that by (simp add: admit_def)
  show ?thesis
  proof (intro conjI allI impI)
    show "onFailure b err settled = b" by (rule 1)
  next
    fix now and operation :: "('w, 'a) operation" and w w' admitted
    assume "admit b now = Inr admitted \<and> operation w now = (Inl err, settled, w')"
    then show "execute b now operation w =
                 \<lparr> outcome = Inl err, breaker = admitted, world = w' \<rparr>"
      using 2[of now admitted operation w w'] by (elim conjE)
  next
    fix now and operation :: "('w, 'a) operation" and w w'
    assume "state b \<noteq> OPEN \<and> operation w now = (Inl err, settled, w')"
    then show "execute b now operation w = \<lparr> outcome = Inl err, breaker = b, world = w' \<rparr>"
      using 3[of operation w now w'] by (elim conjE)
  qed
qed

theorem unclassified_failure_leaves_breaker_witness:
  "onFailure ethereumBreaker badInput 105 = ethereumBreaker
   \<and> execute ethereumBreaker 100 (failingCall badInput 5) 0 =
       \<lparr> outcome = Inl badInput, breaker = ethereumBreaker, world = 1 \<rparr>"
proof -
  have a: "expectedErrors (options ethereumBreaker) =
             Some (\<lambda>err. contains (shown (message err)) ''RPC''
                       \<or> contains (shown (message err)) ''network'')"
    by (simp add: ethereumBreaker_def newCircuitBreaker_def ethereumOptions_def)
  have b: "\<not> (contains (shown (message badInput)) ''RPC''
                \<or> contains (shown (message badInput)) ''network'')"
    by (rule badInput_unclassified)
  have s: "state ethereumBreaker \<noteq> OPEN" by (simp add: ethereumBreaker_def newCircuitBreaker_def)
  have f: "failingCall badInput 5 0 100 = (Inl badInput, 105, 1)" by (simp add: failingCall_def)
  note T = unclassified_failure_leaves_breaker[where settled = 105, OF a b]
  from T have 1: "onFailure ethereumBreaker badInput 105 = ethereumBreaker"
    by (rule conjunct1)
  from T have "\<forall>now (operation :: (nat, string) operation) w w'.
            state ethereumBreaker \<noteq> OPEN \<and> operation w now = (Inl badInput, 105, w') \<longrightarrow>
            execute ethereumBreaker now operation w =
              \<lparr> outcome = Inl badInput, breaker = ethereumBreaker, world = w' \<rparr>"
    by (elim conjE)
  then have "state ethereumBreaker \<noteq> OPEN \<and> failingCall badInput 5 0 100 = (Inl badInput, 105, 1)
       \<longrightarrow> execute ethereumBreaker 100 (failingCall badInput 5) 0 =
              \<lparr> outcome = Inl badInput, breaker = ethereumBreaker, world = 1 \<rparr>"
    by (elim allE)
  with s f have 2: "execute ethereumBreaker 100 (failingCall badInput 5) 0 =
       \<lparr> outcome = Inl badInput, breaker = ethereumBreaker, world = 1 \<rparr>" by (elim impE conjI)
  from 1 2 show ?thesis by (rule conjI)
qed

section \<open>Properties of the retry loop\<close>













section \<open>Properties of pricing and of the pre-check\<close>

text \<open>The products and sums of the example; none of them needs rounding.\<close>

lemma proofs_size: "dec_mul 4 (1 / 5000) = 1 / 1250" by code_simp
lemma proofs_duration: "dec_mul 2 (1 / 50000) = 1 / 25000" by code_simp
lemma proofs_total: "dec_add (dec_add (dec_add (1 / 500) (1 / 1250)) (1 / 25000)) (1 / 50) = 571 / 25000"
  by code_simp

text \<open>
  Claim C6. For a rule with \<^verbatim>\<open>basePrice = 0.002\<close>, \<^verbatim>\<open>sizeMultiplier = 0.0002\<close>,
  \<^verbatim>\<open>durationMultiplier = 0.00002\<close> and \<^verbatim>\<open>/api/v1/proofs\<close> priced at 0.02, a call with
  2048 bytes in, 2048 bytes out and 2000 ms returns, and costs exactly 0.0008 for size,
  0.00004 for duration, 0.02 for the endpoint and 0.02284 in total, in
  \<^verbatim>\<open>PricingCalculator.calculateCost\<close> and in \<^verbatim>\<open>performPricingCalculation\<close> alike.
\<close>

theorem calculateCost_example:
  assumes "basePrice pricing = 0.002" and "sizeMultiplier pricing = 0.0002"
      and "durationMultiplier pricing = 0.00002"
      and "endpointPricing pricing = Some table" and "table ''/api/v1/proofs'' = Some 0.02"
  shows "calculateCost pricing
           \<lparr> endpoint = ''/api/v1/proofs'', requestSize = 2048, responseSize = 2048,
             duration = 2000 \<rparr> =
           Inr \<lparr> basePrice' = 0.002, sizePrice = 0.0008, durationPrice = 0.00004,
                 endpointPrice = 0.02, totalPrice = 0.02284 \<rparr>
       \<and> performPricingCalculation
           \<lparr> endpoint = ''/api/v1/proofs'', requestSize = 2048, responseSize = 2048,
             duration = 2000 \<rparr> pricing =
           Inr \<lparr> basePrice' = 0.002, sizePrice = 0.0008, durationPrice = 0.00004,
                 endpointPrice = 0.02, totalPrice = 0.02284, pricingTier = ''calculated'' \<rparr>"
proof -
  have r: "basePrice pricing = 1 / 500" "sizeMultiplier pricing = 1 / 5000"
          "durationMultiplier pricing = 1 / 50000"
    using assms(1-3) by simp_all
  show ?thesis
    using assms(4,5)
    by (simp add: calculateCost_def performPricingCalculation_def endpointCostOf_def Let_def r
        proofs_size proofs_duration proofs_total)
qed

theorem calculateCost_example_witness:
  "calculateCost standardPricing proofsCall =
     Inr \<lparr> basePrice' = 0.002, sizePrice = 0.0008, durationPrice = 0.00004,
           endpointPrice = 0.02, totalPrice = 0.02284 \<rparr>
   \<and> performPricingCalculation proofsCall standardPricing =
     Inr \<lparr> basePrice' = 0.002, sizePrice = 0.0008, durationPrice = 0.00004,
           endpointPrice = 0.02, totalPrice = 0.02284, pricingTier = ''calculated'' \<rparr>"
proof -
  have a: "basePrice standardPricing = 0.002" "sizeMultiplier standardPricing = 0.0002"
          "durationMultiplier standardPricing = 0.00002"
    by (simp_all add: standardPricing_def)
  have b: "endpointPricing standardPricing =
             Some [''/api/v1/auth'' \<mapsto> 1 / 1000, ''/api/v1/proofs'' \<mapsto> 2 / 100,
                   ''/api/v1/verification'' \<mapsto> 1 / 100, ''/api/v1/blockchain'' \<mapsto> 4 / 100]"
    by (simp add: standardPricing_def)
  have c: "[''/api/v1/auth'' \<mapsto> 1 / 1000, ''/api/v1/proofs'' \<mapsto> 2 / 100,
            ''/api/v1/verification'' \<mapsto> 1 / 100, ''/api/v1/blockchain'' \<mapsto> 4 / (100::rat)]
             ''/api/v1/proofs'' = Some 0.02"
    by simp
  show ?thesis
    using calculateCost_example[OF a b c] by (simp add: proofsCall_def)
qed







section \<open>Properties of the anchoring fan-out\<close>

lemma logVerification_frame:
  "fst (logVerification sid lvl remark det db) = Inr ()"
  "proofTable (snd (logVerification sid lvl remark det db)) = proofTable db"
  "dbFault (snd (logVerification sid lvl remark det db)) = dbFault db"
  by (auto simp: logVerification_def split: option.splits)

lemma logVerification_appends:
  "dbFault db = None \<Longrightarrow>
   verificationLogTable (snd (logVerification sid lvl remark det db)) =
     verificationLogTable db @
       [\<lparr> logSubmissionId = sid, level = lvl, logMessage = remark, details = det \<rparr>]"
  by (simp add: logVerification_def)

lemma anchorToBlockchains_never_throws:
  "fst (anchorToBlockchains svc sid h n db) = Inr ()"
  by (cases "anchorBody svc sid h n db")
     (auto simp: anchorToBlockchains_def logVerification_frame split: sum.splits)















end
